theory Spec2Isabelle
  imports Complex_Main "HOL-Library.Multiset"
begin

section \<open>Python and numpy primitives used by the mode picture code\<close>

text \<open>
  The embedding follows \<^verbatim>\<open>src/customxepr/experiment/mode_picture_dataset.py\<close>.
  numpy's float64 values are idealised as real numbers: there is no rounding, no
  infinity and no nan. Where numpy yields nan (the mean of an empty slice) the model
  has \<open>None\<close>; where Python raises, the model returns \<open>Inl\<close> of the exception.
\<close>

datatype error =
    ValueError
  | IndexError
  | KeyError
  | TypeError
  | ZeroDivisionError
  | StopIteration
  | LibraryError      \<comment> \<open>any exception raised inside lmfit or \<^verbatim>\<open>np.loadtxt\<close>\<close>
  | ValidationError   \<comment> \<open>named by the specification only; no code path raises it\<close>
  | ParseError        \<comment> \<open>named by the specification only; no code path raises it\<close>

definition bind_err :: "error + 'a \<Rightarrow> ('a \<Rightarrow> error + 'b) \<Rightarrow> error + 'b" where
  "bind_err m f = (case m of Inl e \<Rightarrow> Inl e | Inr v \<Rightarrow> f v)"

text \<open>An external call that returns nothing stands for an exception inside the library.\<close>

definition lib :: "'a option \<Rightarrow> error + 'a" where
  "lib r = (case r of None \<Rightarrow> Inl LibraryError | Some v \<Rightarrow> Inr v)"

text \<open>Python's \<^verbatim>\<open>a / b\<close> on floats: a zero divisor raises.\<close>

definition py_truediv :: "real \<Rightarrow> real \<Rightarrow> error + real" where
  "py_truediv a b = (if b = 0 then Inl ZeroDivisionError else Inr (a / b))"

text \<open>
  Python's \<^verbatim>\<open>round(x, 1)\<close>: the nearest multiple of one tenth, a tie going to the
  even neighbour.
\<close>

definition round_half_even :: "real \<Rightarrow> int" where
  "round_half_even x =
     (let f = \<lfloor>x\<rfloor>; d = x - of_int f
      in if d < 1 / 2 then f
         else if 1 / 2 < d then f + 1
         else if even f then f else f + 1)"

definition py_round1 :: "real \<Rightarrow> real" where
  "py_round1 x = of_int (round_half_even (x * 10)) / 10"

text \<open>
  The slice \<^verbatim>\<open>a[i:j]\<close> of Python and numpy: a negative bound counts from the end,
  and both bounds are clamped to the sequence.
\<close>

definition slice_bound :: "int \<Rightarrow> nat \<Rightarrow> nat" where
  "slice_bound i n = (if i < 0 then nat (i + int n) else min (nat i) n)"

definition py_slice :: "int \<Rightarrow> int \<Rightarrow> 'a list \<Rightarrow> 'a list" where
  "py_slice i j xs =
     (let a = slice_bound i (length xs); b = slice_bound j (length xs)
      in take (b - a) (drop a xs))"

text \<open>The slice \<^verbatim>\<open>a[:j]\<close>.\<close>

definition py_slice_to :: "int \<Rightarrow> 'a list \<Rightarrow> 'a list" where
  "py_slice_to j xs = take (slice_bound j (length xs)) xs"

text \<open>\<^verbatim>\<open>np.arange(0, n)\<close>: the integers \<open>0, ..., n - 1\<close>, none when \<open>n \<le> 0\<close>.\<close>

definition np_arange :: "int \<Rightarrow> real list" where
  "np_arange n = map real [0..<nat n]"

text \<open>\<^verbatim>\<open>a[k]\<close> for a non-negative index.\<close>

definition np_item :: "'a list \<Rightarrow> nat \<Rightarrow> error + 'a" where
  "np_item xs k = (if k < length xs then Inr (xs ! k) else Inl IndexError)"

text \<open>
  \<^verbatim>\<open>a[mask]\<close> with a boolean mask: numpy raises IndexError when the mask and the
  array differ in length.
\<close>

definition np_select :: "'a list \<Rightarrow> bool list \<Rightarrow> error + 'a list" where
  "np_select xs flags =
     (if length flags \<noteq> length xs then Inl IndexError
      else Inr (map fst (filter snd (zip xs flags))))"

text \<open>\<^verbatim>\<open>a[indices]\<close> with an integer index array (all indices non-negative).\<close>

definition np_take :: "'a list \<Rightarrow> nat list \<Rightarrow> error + 'a list" where
  "np_take xs idx =
     (if \<forall>i \<in> set idx. i < length xs then Inr (map (\<lambda>i. xs ! i) idx)
      else Inl IndexError)"

text \<open>\<^verbatim>\<open>np.min\<close>, \<^verbatim>\<open>np.max\<close> and \<^verbatim>\<open>np.argmin\<close> raise ValueError on an empty array.\<close>

definition np_min :: "real list \<Rightarrow> error + real" where
  "np_min ys = (case ys of [] \<Rightarrow> Inl ValueError | y # rest \<Rightarrow> Inr (fold min rest y))"

definition np_max :: "real list \<Rightarrow> error + real" where
  "np_max ys = (case ys of [] \<Rightarrow> Inl ValueError | y # rest \<Rightarrow> Inr (fold max rest y))"

fun first_index :: "real list \<Rightarrow> real \<Rightarrow> nat" where
  "first_index [] v = 0"
| "first_index (y # ys) v = (if y = v then 0 else Suc (first_index ys v))"

definition np_argmin :: "real list \<Rightarrow> error + nat" where
  "np_argmin ys = bind_err (np_min ys) (\<lambda>m. Inr (first_index ys m))"

text \<open>\<^verbatim>\<open>np.mean\<close>: nan (here \<open>None\<close>) on an empty array.\<close>

definition np_mean :: "real list \<Rightarrow> real option" where
  "np_mean ys = (if ys = [] then None else Some (sum_list ys / real (length ys)))"

section \<open>Axis conversion\<close>

text \<open>
  \<^verbatim>\<open>_points_to_mhz(n_points, zf, x0)\<close>. The zoom factor is an integer; a zoom
  factor of zero makes \<^verbatim>\<open>1e-3 / (2 * zf)\<close> raise.
\<close>

definition points_to_mhz :: "int \<Rightarrow> int \<Rightarrow> real \<Rightarrow> error + real list" where
  "points_to_mhz n_points zf x0 =
     (let x_axis_points = np_arange n_points
      in bind_err (py_truediv (1 / 1000) (of_int (2 * zf)))
           (\<lambda>scale. Inr (map (\<lambda>p. scale * (p - x0)) x_axis_points)))"

section \<open>Starting points of the fit\<close>

text \<open>
  The baseline of \<^verbatim>\<open>_get_fit_starting_points\<close>: the mean of
  \<^verbatim>\<open>np.mean(y_data[0 : int(n_points * 0.25)])\<close> and
  \<^verbatim>\<open>np.mean(y_data[-int(n_points * 0.25) : -1])\<close>, where \<^verbatim>\<open>n_points\<close> is the
  length of \<^verbatim>\<open>x_data\<close>. It is nan as soon as one of the two slices is empty.
\<close>

definition baseline :: "nat \<Rightarrow> real list \<Rightarrow> real option" where
  "baseline n_points y_data =
     (let q = int (n_points div 4);
          bs1 = np_mean (py_slice 0 q y_data);
          bs2 = np_mean (py_slice (- q) (- 1) y_data)
      in case (bs1, bs2) of
           (Some b1, Some b2) \<Rightarrow> Some ((b1 + b2) / 2)
         | _ \<Rightarrow> None)"

text \<open>
  \<^verbatim>\<open>_get_fit_starting_points(x_data, y_data)\<close>. With a nan peak height every
  comparison \<^verbatim>\<open>y_data < peak_height / 2 + np.min(y_data)\<close> is false, so nothing is
  selected and \<^verbatim>\<open>np.max\<close> raises: the last case below is never reached, a nan never
  leaves the function.
\<close>

definition get_fit_starting_points ::
  "real list \<Rightarrow> real list \<Rightarrow> error + real \<times> real \<times> real" where
  "get_fit_starting_points x_data y_data =
     bind_err (np_argmin y_data) (\<lambda>k.
     bind_err (np_item x_data k) (\<lambda>peak_center.
     bind_err (np_min y_data) (\<lambda>y_min.
       let peak_height = map_option (\<lambda>b. b - y_min) (baseline (length x_data) y_data);
           peak_index = (case peak_height of
                None \<Rightarrow> map (\<lambda>y. False) y_data
              | Some h \<Rightarrow> map (\<lambda>y. y < h / 2 + y_min) y_data)
       in
     bind_err (np_select x_data peak_index) (\<lambda>x_peak.
     bind_err (np_max x_peak) (\<lambda>hi.
     bind_err (np_min x_peak) (\<lambda>lo.
       let fwhm = max (hi - lo) 1
       in case peak_height of
            Some h \<Rightarrow> Inr (peak_center, fwhm, h * fwhm * pi / 2)
          | None \<Rightarrow> Inl ValueError))))))"

section \<open>Background and dip fit\<close>

text \<open>
  lmfit is an external collaborator. \<open>guess\<close> stands for
  \<^verbatim>\<open>PolynomialModel(degree=7).guess(y_bg, x=x_bg)\<close> and returns the polynomial
  coefficients; \<open>fit\<close> stands for \<^verbatim>\<open>mode_picture_model.fit(y_data, pars, x=x_data)\<close>,
  where \<open>pars\<close> holds the guessed coefficients and the three starting values added by
  \<^verbatim>\<open>pars.add_many\<close>. Either returns \<open>None\<close> when the library raises.
  \<open>argsort\<close> stands for \<^verbatim>\<open>np.argsort\<close>, whose order among equal keys is not
  specified; \<open>strftime\<close> is the clock reading and \<open>format_float\<close> the text of a float
  in an f-string.
\<close>

record fit_result =
  best_x0 :: real                \<comment> \<open>\<^verbatim>\<open>best_values["x0"]\<close>\<close>
  best_w :: real                 \<comment> \<open>\<^verbatim>\<open>best_values["w"]\<close>, also \<^verbatim>\<open>params["w"].value\<close>\<close>
  best_a :: real                 \<comment> \<open>\<^verbatim>\<open>best_values["a"]\<close>\<close>
  stderr_w :: "real option"      \<comment> \<open>\<^verbatim>\<open>params["w"].stderr\<close>, which lmfit may leave at None\<close>

record parameters =
  coeffs :: "real list"
  init_x0 :: real
  init_w :: real
  init_a :: real

record externals =
  guess :: "real list \<Rightarrow> real list \<Rightarrow> real list option"
  fit :: "real list \<Rightarrow> parameters \<Rightarrow> real list \<Rightarrow> fit_result option"
  argsort :: "real list \<Rightarrow> nat list"
  strftime :: string
  format_float :: "real \<Rightarrow> string"

text \<open>
  The background samples of \<^verbatim>\<open>fit_qvalue\<close>:
  \<^verbatim>\<open>np.concatenate((arr[0:idx1], arr[-idx2:-1]))\<close>, where \<^verbatim>\<open>idx1\<close> and \<^verbatim>\<open>idx2\<close>
  count the x-values below \<^verbatim>\<open>peak_center - 3 * fwhm\<close> and above
  \<^verbatim>\<open>peak_center + 3 * fwhm\<close>. The same cut is applied to \<^verbatim>\<open>x_data\<close> and to
  \<^verbatim>\<open>y_data\<close>.
\<close>

definition lower_count :: "real list \<Rightarrow> real \<Rightarrow> real \<Rightarrow> int" where
  "lower_count x_data peak_center fwhm =
     int (length (filter (\<lambda>x. x < peak_center - 3 * fwhm) x_data))"

definition upper_count :: "real list \<Rightarrow> real \<Rightarrow> real \<Rightarrow> int" where
  "upper_count x_data peak_center fwhm =
     int (length (filter (\<lambda>x. peak_center + 3 * fwhm < x) x_data))"

definition background :: "real list \<Rightarrow> real \<Rightarrow> real \<Rightarrow> 'a list \<Rightarrow> 'a list" where
  "background x_data peak_center fwhm arr =
     (let idx1 = lower_count x_data peak_center fwhm;
          idx2 = upper_count x_data peak_center fwhm
      in py_slice 0 idx1 arr @ py_slice (- idx2) (- 1) arr)"

text \<open>
  \<^verbatim>\<open>fit_qvalue(self, x_data, y_data, zoom_factor)\<close>; \<open>freq0\<close> is \<^verbatim>\<open>self.freq0\<close>.
\<close>

definition fit_qvalue ::
  "externals \<Rightarrow> real \<Rightarrow> real list \<Rightarrow> real list \<Rightarrow> int \<Rightarrow> error + real \<times> fit_result" where
  "fit_qvalue E freq0 x_data y_data zoom_factor =
     bind_err (get_fit_starting_points x_data y_data) (\<lambda>(peak_center, fwhm, peak_area).
       let x_bg = background x_data peak_center fwhm x_data;
           y_bg = background x_data peak_center fwhm y_data
       in
     bind_err (lib (guess E y_bg x_bg)) (\<lambda>cs.
       let pars = \<lparr>coeffs = cs, init_x0 = peak_center, init_w = fwhm, init_a = peak_area\<rparr>
       in
     bind_err (lib (fit E y_data pars x_data)) (\<lambda>fit_result.
     bind_err (py_truediv (best_w fit_result * (1 / 1000)) (of_int (2 * zoom_factor)))
       (\<lambda>delta_freq.
     bind_err (py_truediv freq0 delta_freq) (\<lambda>q.
       Inr (py_round1 q, fit_result))))))"

text \<open>\<^verbatim>\<open>get_qvalue_stderr(self)\<close>, reading \<^verbatim>\<open>self.freq0\<close> and \<^verbatim>\<open>self.fit_result\<close>.\<close>

definition get_qvalue_stderr :: "real \<Rightarrow> fit_result \<Rightarrow> error + real" where
  "get_qvalue_stderr freq0 fr =
     (let delta_freq = best_w fr * (1 / 1000) / 2
      in case stderr_w fr of
           None \<Rightarrow> Inl TypeError
         | Some s \<Rightarrow>
             (let delta_freq_stderr = s * (1 / 1000) / 2
              in bind_err (py_truediv freq0 (delta_freq ^ 2))
                   (\<lambda>r. Inr (py_round1 (r * delta_freq_stderr)))))"

section \<open>Combining the zoom factors\<close>

text \<open>
  A data set is the dictionary \<^verbatim>\<open>mode_pic_data\<close>, given by its items in insertion
  order (the keys are distinct).
\<close>

type_synonym dataset = "(int \<times> real list) list"

text \<open>The loop of \<^verbatim>\<open>combine_data\<close> that rescales one x-axis per zoom factor.\<close>

fun rescale_axes ::
  "externals \<Rightarrow> real \<Rightarrow> int \<Rightarrow> dataset \<Rightarrow> error + real list list" where
  "rescale_axes E freq0 n_points [] = Inr []"
| "rescale_axes E freq0 n_points ((zf, curve) # rest) =
     bind_err (fit_qvalue E freq0 (np_arange n_points) curve zf) (\<lambda>(q_value, fit_rslt).
     bind_err (points_to_mhz n_points zf (best_x0 fit_rslt)) (\<lambda>axis.
     bind_err (rescale_axes E freq0 n_points rest) (\<lambda>axes.
       Inr (axis # axes))))"

definition combine_data ::
  "externals \<Rightarrow> real \<Rightarrow> dataset \<Rightarrow> error + real list \<times> real list \<times> real list" where
  "combine_data E freq0 mode_pic_data =
     (case mode_pic_data of
        [] \<Rightarrow> Inl StopIteration
      | (zf0, curve0) # _ \<Rightarrow>
          (let n_points = int (length curve0)
           in bind_err (rescale_axes E freq0 n_points mode_pic_data) (\<lambda>x_axis_mhz.
                let x_axis_mhz_comb = concat x_axis_mhz;
                    mode_pic_comb = concat (map snd mode_pic_data);
                    indices = argsort E x_axis_mhz_comb
                in
              bind_err (np_take x_axis_mhz_comb indices) (\<lambda>x_sorted.
              bind_err (np_take mode_pic_comb indices) (\<lambda>y_sorted.
                Inr (x_sorted, map (\<lambda>f. 2 / (1 / 1000) * f) x_sorted, y_sorted))))))"

section \<open>The mode picture and its construction\<close>

datatype mvalue = Str string | Num real

type_synonym metadata = "string \<rightharpoonup> mvalue"

record mode_picture =
  metadata :: metadata
  freq0 :: real
  x_data_mhz :: "real list"
  x_data_points :: "real list"
  y_data :: "real list"
  qvalue :: real
  fit_result :: fit_result
  qvalue_stderr :: real
  mode_pic_data :: "dataset option"    \<comment> \<open>set by the constructor from a data set only\<close>
  zoom_factors :: "int list option"    \<comment> \<open>likewise: the keys of the data set\<close>

text \<open>
  A file as \<^verbatim>\<open>load\<close> reads it: \<open>table\<close> is the result of \<^verbatim>\<open>np.loadtxt(path)\<close>
  (\<open>None\<close> when it raises), \<open>lines\<close> is \<^verbatim>\<open>f.readlines()\<close>, every line with its
  line feed. \<^verbatim>\<open>np.loadtxt\<close> returns a one-dimensional array for a single row or a
  single column.
\<close>

datatype ndarray = Arr1 "real list" | Arr2 "real list list"

record saved_file =
  table :: "ndarray option"
  lines :: "string list"

text \<open>\<^verbatim>\<open>data_matrix[:, k]\<close>.\<close>

definition column :: "ndarray \<Rightarrow> nat \<Rightarrow> error + real list" where
  "column m k =
     (case m of
        Arr1 _ \<Rightarrow> Inl IndexError
      | Arr2 rows \<Rightarrow>
          if \<forall>r \<in> set rows. k < length r then Inr (map (\<lambda>r. r ! k) rows)
          else Inl IndexError)"

definition startswith_hash :: "string \<Rightarrow> bool" where
  "startswith_hash line = (case line of [] \<Rightarrow> False | c # _ \<Rightarrow> c = CHR ''#'')"

text \<open>The word characters \<^verbatim>\<open>\w\<close> of the regular expression, for ASCII text.\<close>

definition is_digit :: "char \<Rightarrow> bool" where
  "is_digit c = (c \<in> set ''0123456789'')"

definition is_word_char :: "char \<Rightarrow> bool" where
  "is_word_char c =
     (is_digit c \<or> c \<in> set ''abcdefghijklmnopqrstuvwxyz'' \<or>
      c \<in> set ''ABCDEFGHIJKLMNOPQRSTUVWXYZ'' \<or> c = CHR ''_'')"

text \<open>
  \<^verbatim>\<open>re.match(r"# (?P<key>\w*):\t(?P<value>.*)", line)\<close>: the key is the longest run
  of word characters after \<^verbatim>\<open>"# "\<close> (a shorter run would be followed by a word
  character, not by the colon), and the value runs up to the line feed.
\<close>

definition match_metadata :: "string \<Rightarrow> (string \<times> string) option" where
  "match_metadata line =
     (case line of
        c1 # c2 # rest \<Rightarrow>
          if c1 = CHR ''#'' \<and> c2 = CHR '' '' then
            (case dropWhile is_word_char rest of
               d1 # d2 # v \<Rightarrow>
                 if d1 = CHR '':'' \<and> d2 = CHR 0x09
                 then Some (takeWhile is_word_char rest, takeWhile (\<lambda>c. c \<noteq> CHR 0x0A) v)
                 else None
             | _ \<Rightarrow> None)
          else None
      | _ \<Rightarrow> None)"

text \<open>The loop of \<^verbatim>\<open>load\<close> over the metadata lines, started on the cleared mapping.\<close>

definition store_line :: "string \<Rightarrow> metadata \<Rightarrow> metadata" where
  "store_line line md =
     (case match_metadata line of
        None \<Rightarrow> md
      | Some (k, v) \<Rightarrow> md(k \<mapsto> Str v))"

definition read_metadata :: "string list \<Rightarrow> metadata" where
  "read_metadata ls =
     (let header_length = length (filter startswith_hash ls);
          metadata_length = int header_length - 1
      in fold store_line (py_slice_to metadata_length ls) Map.empty)"

text \<open>
  \<^verbatim>\<open>float(freq_str)\<close> for a string of digits and dots, the only strings the filter
  of \<^verbatim>\<open>load\<close> lets through: digits with at most one dot, and at least one digit.
\<close>

definition digits_value :: "string \<Rightarrow> nat" where
  "digits_value s = foldl (\<lambda>a c. 10 * a + (of_char c - 48)) 0 s"

definition py_float :: "string \<Rightarrow> error + real" where
  "py_float s =
     (let ip = takeWhile is_digit s
      in case dropWhile is_digit s of
           [] \<Rightarrow> if ip = [] then Inl ValueError else Inr (real (digits_value ip))
         | c # fp \<Rightarrow>
             if c = CHR ''.'' \<and> list_all is_digit fp \<and> (ip \<noteq> [] \<or> fp \<noteq> [])
             then Inr (real (digits_value (ip @ fp)) / 10 ^ length fp)
             else Inl ValueError)"

text \<open>
  \<^verbatim>\<open>"".join(filter(lambda x: x in "0123456789.", field))\<close>, the string handed to
  \<^verbatim>\<open>float\<close>.
\<close>

definition freq_str :: "string \<Rightarrow> string" where
  "freq_str field = filter (\<lambda>c. c \<in> set ''0123456789.'') field"

definition dict_get :: "metadata \<Rightarrow> string \<Rightarrow> error + mvalue" where
  "dict_get md k = (case md k of None \<Rightarrow> Inl KeyError | Some v \<Rightarrow> Inr v)"

text \<open>
  \<^verbatim>\<open>load(self, path)\<close>. The metadata the object held before is cleared; what the
  loop stores are strings.
\<close>

definition load :: "externals \<Rightarrow> metadata \<Rightarrow> saved_file \<Rightarrow> error + mode_picture" where
  "load E old_metadata f =
     bind_err (lib (table f)) (\<lambda>data_matrix.
     bind_err (column data_matrix 0) (\<lambda>x_mhz.
     bind_err (column data_matrix 1) (\<lambda>y.
       let x_points = map (\<lambda>v. 2 / (1 / 1000) * v) x_mhz;
           md = read_metadata (lines f)
       in
     bind_err (dict_get md ''Frequency'') (\<lambda>field.
     bind_err (case field of
                 Str s \<Rightarrow> py_float (freq_str s)
               | Num _ \<Rightarrow> Inl TypeError) (\<lambda>freq.
     bind_err (fit_qvalue E freq x_points y 1) (\<lambda>(q, fr).
     bind_err (get_qvalue_stderr freq fr) (\<lambda>q_err.
       Inr \<lparr>metadata = md, freq0 = freq, x_data_mhz = x_mhz, x_data_points = x_points,
            y_data = y, qvalue = q, fit_result = fr, qvalue_stderr = q_err,
            mode_pic_data = None, zoom_factors = None\<rparr>)))))))"

text \<open>
  \<^verbatim>\<open>ModePicture.__init__(self, input_path_or_data, freq, metadata)\<close>: the first
  argument is a path (here the file behind it), a dictionary, or something else.
\<close>

datatype init_arg = Path saved_file | Data dataset | Other

definition init ::
  "externals \<Rightarrow> init_arg \<Rightarrow> real \<Rightarrow> metadata option \<Rightarrow> error + mode_picture" where
  "init E input_path_or_data freq md_arg =
     (let md = (case md_arg of None \<Rightarrow> Map.empty | Some m \<Rightarrow> m)
      in case input_path_or_data of
           Path f \<Rightarrow> load E md f
         | Data d \<Rightarrow>
             bind_err (combine_data E freq d) (\<lambda>(x_mhz, x_points, y).
             bind_err (fit_qvalue E freq x_points y 1) (\<lambda>(q, fr).
             bind_err (get_qvalue_stderr freq fr) (\<lambda>q_err.
               Inr \<lparr>metadata = md(''Time'' \<mapsto> Str (strftime E),
                                   ''Frequency'' \<mapsto> Str (format_float E freq @ '' GHz''),
                                   ''QValue'' \<mapsto> Num q,
                                   ''QValueErr'' \<mapsto> Num q_err),
                    freq0 = freq, x_data_mhz = x_mhz, x_data_points = x_points,
                    y_data = y, qvalue = q, fit_result = fr, qvalue_stderr = q_err,
                    mode_pic_data = Some d,
                    zoom_factors = Some (map fst d)\<rparr>)))
         | Other \<Rightarrow> Inl TypeError)"

section \<open>Notions used to state the properties\<close>

text \<open>
  The positions of the samples that \<^verbatim>\<open>fit_qvalue\<close> passes to the polynomial guess:
  the background cut applied to the positions \<open>0, ..., n - 1\<close> themselves.
\<close>

definition background_indices :: "real list \<Rightarrow> real \<Rightarrow> real \<Rightarrow> nat list" where
  "background_indices x_data peak_center fwhm =
     background x_data peak_center fwhm [0..<length x_data]"

text \<open>The x-values of the samples whose y-value lies below a level.\<close>

definition samples_below :: "real list \<Rightarrow> real list \<Rightarrow> real \<Rightarrow> real set" where
  "samples_below xs ys level = fst ` {p \<in> set (zip xs ys). snd p < level}"

text \<open>
  A concrete collaborator for the worked examples: the polynomial guess is all zero,
  the fit stops at its starting values with a width error of one tenth, and the argsort
  is the stable one.
\<close>

definition stable_argsort :: "real list \<Rightarrow> nat list" where
  "stable_argsort xs = map snd (sort_key fst (zip xs [0..<length xs]))"

definition example_externals :: externals where
  "example_externals =
     \<lparr>guess = (\<lambda>y_bg x_bg. Some (replicate 8 0)),
      fit = (\<lambda>ys pars xs.
        Some \<lparr>best_x0 = init_x0 pars, best_w = init_w pars, best_a = init_a pars,
              stderr_w = Some (1 / 10)\<rparr>),
      argsort = stable_argsort,
      strftime = ''12:00, 01/01/2020'',
      format_float = (\<lambda>v. ''9.385'')\<rparr>"

text \<open>
  What is known of \<^verbatim>\<open>np.argsort\<close>: its result lists every position once, and
  reading the array in that order gives ascending values.
\<close>

definition sorting_permutation :: "(real list \<Rightarrow> nat list) \<Rightarrow> bool" where
  "sorting_permutation f =
     (\<forall>xs. mset (f xs) = mset [0..<length xs] \<and> sorted (map (\<lambda>i. xs ! i) (f xs)))"

text \<open>
  The key-value pairs of the lines that \<^verbatim>\<open>load\<close> reads when the file has a line
  starting with \<^verbatim>\<open>#\<close>: with \<open>h\<close> such lines, the matching ones among the first
  \<open>h - 1\<close> lines of the file, in file order.
\<close>

definition header_pairs :: "string list \<Rightarrow> (string \<times> string) list" where
  "header_pairs ls =
     List.map_filter match_metadata (take (length (filter startswith_hash ls) - 1) ls)"

text \<open>
  Lines as \<^verbatim>\<open>save\<close> writes them through \<^verbatim>\<open>np.savetxt\<close>: a metadata item
  \<^verbatim>\<open>"# key:\tvalue\n"\<close>, the column titles, and a row of the table.
\<close>

definition header_line :: "string \<Rightarrow> string \<Rightarrow> string" where
  "header_line k v = ''# '' @ k @ '':'' @ [CHR 0x09] @ v @ [CHR 0x0A]"

definition titles_line :: string where
  "titles_line = ''# freq [MHz]'' @ [CHR 0x09] @ ''MW abs. [a.u.]'' @ [CHR 0x0A]"

definition data_line :: "string \<Rightarrow> string \<Rightarrow> string" where
  "data_line a b = a @ [CHR 0x09] @ b @ [CHR 0x0A]"

text \<open>
  Example files: the eight-point curve with its dip at 5 points, with a table that
  \<^verbatim>\<open>np.loadtxt\<close> reads as eight rows of two columns. The first has the header that
  \<^verbatim>\<open>save\<close> writes; the second has no frequency entry; in the third the frequency
  entry holds no digit; the fourth ends its header with a metadata line and repeats a
  key.
\<close>

definition example_rows :: "real list list" where
  "example_rows =
     [[0, 4], [1 / 2000, 4], [2 / 2000, 4], [3 / 2000, 4], [4 / 2000, 4], [5 / 2000, 0],
      [6 / 2000, 4], [7 / 2000, 4]]"

definition example_data_lines :: "string list" where
  "example_data_lines =
     [data_line ''0.000000000E+00'' ''4.000000000E+00'',
      data_line ''5.000000000E-04'' ''4.000000000E+00'',
      data_line ''1.000000000E-03'' ''4.000000000E+00'',
      data_line ''1.500000000E-03'' ''4.000000000E+00'',
      data_line ''2.000000000E-03'' ''4.000000000E+00'',
      data_line ''2.500000000E-03'' ''0.000000000E+00'',
      data_line ''3.000000000E-03'' ''4.000000000E+00'',
      data_line ''3.500000000E-03'' ''4.000000000E+00'']"

definition saved_example :: saved_file where
  "saved_example =
     \<lparr>table = Some (Arr2 example_rows),
      lines = [header_line ''Time'' ''12:00, 01/01/2020'',
               header_line ''Frequency'' ''9.385 GHz'',
               header_line ''QValue'' ''18770.0'',
               header_line ''QValueErr'' ''1877.0'',
               titles_line] @ example_data_lines\<rparr>"

definition no_frequency_example :: saved_file where
  "no_frequency_example =
     \<lparr>table = Some (Arr2 example_rows),
      lines = [header_line ''QValue'' ''18770.0'', titles_line] @ example_data_lines\<rparr>"

definition no_digits_example :: saved_file where
  "no_digits_example =
     \<lparr>table = Some (Arr2 example_rows),
      lines = [header_line ''Frequency'' ''unknown'', titles_line] @ example_data_lines\<rparr>"

definition untitled_example :: saved_file where
  "untitled_example =
     \<lparr>table = Some (Arr2 example_rows),
      lines = [header_line ''Frequency'' ''1 GHz'',
               header_line ''Frequency'' ''9.385 GHz'',
               header_line ''QValue'' ''18770.0''] @ example_data_lines\<rparr>"

section \<open>Properties of the axis conversion\<close>

lemma points_to_mhz_value:
  assumes "zf \<noteq> 0"
  shows "points_to_mhz n zf x0 =
    Inr (map (\<lambda>i. (real i - x0) / (2000 * real_of_int zf)) [0..<nat n])"
  using assms
  by (simp add: points_to_mhz_def py_truediv_def bind_err_def np_arange_def
      field_simps)

text \<open>
  Claim C3. For every number of points \<open>n \<ge> 0\<close>, zoom factor \<open>zf \<ge> 1\<close> and center
  \<open>x0\<close>, the conversion returns a sequence of exactly \<open>n\<close> elements, the \<open>i\<close>-th
  being \<open>(i - x0) / (2000 * zf)\<close>; the sequence is strictly increasing.
\<close>

theorem points_to_mhz_linear:
  assumes "0 \<le> n" and "1 \<le> zf"
  shows "\<exists>ys. points_to_mhz n zf x0 = Inr ys \<and> int (length ys) = n \<and>
    (\<forall>i < length ys. ys ! i = (real i - x0) / (2000 * real_of_int zf)) \<and>
    sorted_wrt (<) ys"
proof -
  let ?f = "\<lambda>i. (real i - x0) / (2000 * real_of_int zf)"
  let ?ys = "map ?f [0..<nat n]"
  from assms(2) have zf: "zf \<noteq> 0" and pos: "0 < 2000 * real_of_int zf" by simp_all
  have run: "points_to_mhz n zf x0 = Inr ?ys"
    using zf by (rule points_to_mhz_value)
  have len: "int (length ?ys) = n" using assms(1) by simp
  have nth: "\<forall>i < length ?ys. ?ys ! i = ?f i" by simp
  have "\<And>i j. i < j \<Longrightarrow> ?f i < ?f j"
    using pos by (simp add: divide_strict_right_mono)
  then have "sorted_wrt (<) ?ys"
    by (simp add: sorted_wrt_map sorted_wrt_iff_nth_less)
  with run len nth show ?thesis by blast
qed

theorem points_to_mhz_linear_witness:
  "points_to_mhz 3 2 1 = Inr [- 1 / 4000, 0, 1 / 4000] \<and>
   sorted_wrt (<) [- 1 / 4000, 0, 1 / 4000 :: real]"
  using points_to_mhz_linear [of 3 2 1]
  by (simp add: points_to_mhz_value eval_nat_numeral)

section \<open>Slices and the background cut\<close>

lemma slice_bound_le: "slice_bound i n \<le> n"
  by (cases "i < 0") (simp_all add: slice_bound_def)

lemma py_slice_map: "py_slice i j (map f xs) = map f (py_slice i j xs)"
  by (simp add: py_slice_def Let_def take_map drop_map)

lemma py_slice_upt: "py_slice i j [0..<n] = [slice_bound i n..<slice_bound j n]"
proof -
  have "slice_bound j n \<le> n" by (rule slice_bound_le)
  then show ?thesis
    by (cases "slice_bound i n \<le> slice_bound j n") (simp_all add: py_slice_def Let_def)
qed

lemma py_slice_nth: "py_slice i j xs = map (\<lambda>k. xs ! k) (py_slice i j [0..<length xs])"
proof -
  have "py_slice i j (map (\<lambda>k. xs ! k) [0..<length xs]) =
    map (\<lambda>k. xs ! k) (py_slice i j [0..<length xs])"
    by (rule py_slice_map)
  then show ?thesis by (simp add: map_nth)
qed

lemma background_nth:
  "background x_data pc fw arr = map (\<lambda>k. arr ! k) (background x_data pc fw [0..<length arr])"
  by (simp add: background_def Let_def py_slice_nth [of _ _ arr])

lemma starting_points_facts:
  assumes "get_fit_starting_points x y = Inr (pc, fw, ar)"
  shows "length y = length x" and "y \<noteq> []" and "\<exists>k<length x. pc = x ! k" and "1 \<le> fw"
  using assms
  by (auto simp: get_fit_starting_points_def bind_err_def np_argmin_def np_item_def
      np_select_def np_min_def Let_def split: sum.splits option.splits if_splits list.splits)

lemma background_indices_upt:
  "background_indices x pc fw =
     [0..<slice_bound (lower_count x pc fw) (length x)] @
     [slice_bound (- upper_count x pc fw) (length x)..<length x - 1]"
proof -
  have "slice_bound 0 (length x) = 0" and "slice_bound (- 1) (length x) = length x - 1"
    by (simp_all add: slice_bound_def nat_diff_distrib')
  then show ?thesis
    by (simp add: background_indices_def background_def Let_def py_slice_upt)
qed

lemma lower_count_less:
  assumes "get_fit_starting_points x y = Inr (pc, fw, ar)"
  shows "slice_bound (lower_count x pc fw) (length x) < length x"
proof -
  from starting_points_facts(3,4) [OF assms]
  obtain k where k: "k < length x" "pc = x ! k" and fw: "1 \<le> fw" by blast
  have "x ! k \<in> set x" using k(1) by simp
  moreover have "\<not> x ! k < pc - 3 * fw" using k(2) fw by simp
  ultimately have "length (filter (\<lambda>v. v < pc - 3 * fw) x) < length x"
    by (rule length_filter_less)
  then show ?thesis by (simp add: lower_count_def slice_bound_def)
qed

text \<open>
  Claim C9. Whenever the starting-point heuristic returns \<open>(pc, fwhm, ar)\<close> for a
  curve of \<open>n\<close> samples, the background samples are the samples at the positions
  \<open>background_indices\<close>, for the x-values and for the y-values alike; the last position
  \<open>n - 1\<close> is never among them; and when no x-value lies above \<open>pc + 3 * fwhm\<close>
  the slice \<^verbatim>\<open>x_data[-idx2:-1]\<close> is the whole array but its last element, so that
  the background positions are all of \<open>0, ..., n - 2\<close>, the dip included.
\<close>

theorem background_excludes_last:
  assumes "get_fit_starting_points xs ys = Inr (pc, fwhm, ar)"
  shows "background xs pc fwhm xs =
      map (\<lambda>k. xs ! k) (background_indices xs pc fwhm) \<and>
    background xs pc fwhm ys =
      map (\<lambda>k. ys ! k) (background_indices xs pc fwhm) \<and>
    length xs - 1 \<notin> set (background_indices xs pc fwhm) \<and>
    (upper_count xs pc fwhm = 0 \<longrightarrow>
      py_slice (- upper_count xs pc fwhm) (- 1) xs = butlast xs \<and>
      set (background_indices xs pc fwhm) = {0..<length xs - 1})"
proof -
  let ?n = "length xs"
  let ?I = "background_indices xs pc fwhm"
  have len: "length ys = ?n" by (rule starting_points_facts(1) [OF assms])
  have low: "slice_bound (lower_count xs pc fwhm) ?n < ?n"
    by (rule lower_count_less [OF assms])
  have shape: "?I = [0..<slice_bound (lower_count xs pc fwhm) ?n] @
      [slice_bound (- upper_count xs pc fwhm) ?n..<?n - 1]"
    by (rule background_indices_upt)
  have x: "background xs pc fwhm xs = map (\<lambda>k. xs ! k) ?I"
    unfolding background_indices_def by (rule background_nth)
  have y: "background xs pc fwhm ys = map (\<lambda>k. ys ! k) ?I"
    unfolding background_indices_def using background_nth [of xs pc fwhm ys]
    by (simp add: len)
  have last: "?n - 1 \<notin> set ?I" using low by (auto simp: shape)
  have zero: "py_slice (- upper_count xs pc fwhm) (- 1) xs = butlast xs \<and>
      set ?I = {0..<?n - 1}" if "upper_count xs pc fwhm = 0"
  proof
    show "py_slice (- upper_count xs pc fwhm) (- 1) xs = butlast xs"
      using that by (simp add: py_slice_def slice_bound_def butlast_conv_take nat_diff_distrib')
    have "slice_bound (- upper_count xs pc fwhm) ?n = 0"
      using that by (simp add: slice_bound_def)
    then show "set ?I = {0..<?n - 1}" using low by (auto simp: shape)
  qed
  from x y last zero show ?thesis by blast
qed

theorem background_excludes_last_witness:
  "get_fit_starting_points [0, 1, 2, 3, 4, 5, 6, 7] [4, 4, 4, 4, 4, 0, 4, 4] = Inr (5, 1, 2 * pi) \<and>
   upper_count [0, 1, 2, 3, 4, 5, 6, 7] 5 1 = 0 \<and>
   background [0, 1, 2, 3, 4, 5, 6, 7] 5 1 [0, 1, 2, 3, 4, 5, 6, 7 :: real] = [0, 1, 0, 1, 2, 3, 4, 5, 6] \<and>
   background_indices [0, 1, 2, 3, 4, 5, 6, 7] 5 1 = [0, 1, 0, 1, 2, 3, 4, 5, 6] \<and>
   7 \<notin> set (background_indices [0, 1, 2, 3, 4, 5, 6, 7] 5 1)"
proof -
  let ?xs = "[0, 1, 2, 3, 4, 5, 6, 7 :: real]"
  have run: "get_fit_starting_points ?xs [4, 4, 4, 4, 4, 0, 4, 4] = Inr (5, 1, 2 * pi)"
    by (simp add: get_fit_starting_points_def bind_err_def np_argmin_def np_min_def
        np_max_def np_item_def np_select_def np_mean_def py_slice_def slice_bound_def
        baseline_def)
  have up: "upper_count ?xs 5 1 = 0"
    by (simp add: upper_count_def)
  have idx: "background_indices ?xs 5 1 = [0, 1, 0, 1, 2, 3, 4, 5, 6]"
    by (simp add: background_indices_def background_def lower_count_def upper_count_def
        py_slice_def slice_bound_def)
  from background_excludes_last [OF run] up idx run show ?thesis
    by simp
qed

text \<open>
  Claim C4, as the code has it. For the twelve-point curve with its dip at position 5
  the heuristic gives center 5 and width 1; the samples outside \<open>[2, 8]\<close> are those at
  \<open>0, 1, 9, 10, 11\<close>, but the cut passes \<open>0, 1, 9, 10\<close> to the polynomial guess and
  leaves the sample at \<open>11\<close> out. For the eight-point curve no sample lies above 8, and
  the cut passes the samples \<open>0, ..., 6\<close>, the dip among them, where only \<open>0, 1\<close>
  lie outside \<open>[2, 8]\<close>.
\<close>

theorem background_not_outside_interval:
  "get_fit_starting_points [0, 1, 2, 3, 4, 5, 6, 7, 8, 9, 10, 11]
      [4, 4, 4, 4, 4, 0, 4, 4, 4, 4, 4, 4] = Inr (5, 1, 2 * pi) \<and>
   background [0, 1, 2, 3, 4, 5, 6, 7, 8, 9, 10, 11] 5 1
      [0, 1, 2, 3, 4, 5, 6, 7, 8, 9, 10, 11 :: real] = [0, 1, 9, 10] \<and>
   filter (\<lambda>x. x < 5 - 3 * 1 \<or> 5 + 3 * 1 < x)
      [0, 1, 2, 3, 4, 5, 6, 7, 8, 9, 10, 11 :: real] = [0, 1, 9, 10, 11] \<and>
   get_fit_starting_points [0, 1, 2, 3, 4, 5, 6, 7] [4, 4, 4, 4, 4, 0, 4, 4] =
      Inr (5, 1, 2 * pi) \<and>
   background [0, 1, 2, 3, 4, 5, 6, 7] 5 1 [0, 1, 2, 3, 4, 5, 6, 7 :: real] =
      [0, 1, 0, 1, 2, 3, 4, 5, 6] \<and>
   filter (\<lambda>x. x < 5 - 3 * 1 \<or> 5 + 3 * 1 < x) [0, 1, 2, 3, 4, 5, 6, 7 :: real] = [0, 1]"
proof -
  have "get_fit_starting_points [0, 1, 2, 3, 4, 5, 6, 7, 8, 9, 10, 11]
      [4, 4, 4, 4, 4, 0, 4, 4, 4, 4, 4, 4] = Inr (5, 1, 2 * pi)"
    by (simp add: get_fit_starting_points_def bind_err_def np_argmin_def np_min_def
        np_max_def np_item_def np_select_def np_mean_def py_slice_def slice_bound_def
        baseline_def)
  moreover have "background [0, 1, 2, 3, 4, 5, 6, 7, 8, 9, 10, 11] 5 1
      [0, 1, 2, 3, 4, 5, 6, 7, 8, 9, 10, 11 :: real] = [0, 1, 9, 10]"
    by (simp add: background_def lower_count_def upper_count_def py_slice_def
        slice_bound_def)
  moreover have "get_fit_starting_points [0, 1, 2, 3, 4, 5, 6, 7] [4, 4, 4, 4, 4, 0, 4, 4] =
      Inr (5, 1, 2 * pi)"
    by (simp add: get_fit_starting_points_def bind_err_def np_argmin_def np_min_def
        np_max_def np_item_def np_select_def np_mean_def py_slice_def slice_bound_def
        baseline_def)
  moreover have "background [0, 1, 2, 3, 4, 5, 6, 7] 5 1 [0, 1, 2, 3, 4, 5, 6, 7 :: real] =
      [0, 1, 0, 1, 2, 3, 4, 5, 6]"
    by (simp add: background_def lower_count_def upper_count_def py_slice_def
        slice_bound_def)
  ultimately show ?thesis by simp
qed

section \<open>The starting-point heuristic\<close>

lemma np_min_Min: "ys \<noteq> [] \<Longrightarrow> np_min ys = Inr (Min (set ys))"
  by (cases ys) (simp_all add: np_min_def Min.set_eq_fold [symmetric])

lemma np_max_Max: "ys \<noteq> [] \<Longrightarrow> np_max ys = Inr (Max (set ys))"
  by (cases ys) (simp_all add: np_max_def Max.set_eq_fold [symmetric])

lemma first_index_props:
  "v \<in> set ys \<Longrightarrow>
     first_index ys v < length ys \<and> ys ! first_index ys v = v \<and>
     (\<forall>j < first_index ys v. ys ! j \<noteq> v)"
proof (induction ys)
  case Nil
  then show ?case by simp
next
  case (Cons y ys)
  show ?case
  proof (cases "y = v")
    case True
    then show ?thesis by simp
  next
    case False
    with Cons have ih: "first_index ys v < length ys" "ys ! first_index ys v = v"
      "\<forall>j < first_index ys v. ys ! j \<noteq> v" by auto
    have "(y # ys) ! j \<noteq> v" if "j < Suc (first_index ys v)" for j
      using that ih(3) False by (cases j) auto
    with False ih show ?thesis by simp
  qed
qed

lemma np_argmin_first:
  assumes "ys \<noteq> []"
  shows "\<exists>k. np_argmin ys = Inr k \<and> k < length ys \<and> ys ! k = Min (set ys) \<and>
    (\<forall>j < k. ys ! j \<noteq> Min (set ys))"
proof -
  have "Min (set ys) \<in> set ys" using assms by (simp add: Min_in)
  from first_index_props [OF this] show ?thesis
    using assms by (simp add: np_argmin_def np_min_Min bind_err_def)
qed

lemma baseline_defined:
  assumes "8 \<le> n" and "length ys = n"
  shows "\<exists>b. baseline n ys = Some b"
proof -
  have q: "2 \<le> n div 4" using assms(1) by simp
  have "py_slice 0 (int (n div 4)) ys \<noteq> []"
    using q assms by (auto simp: py_slice_def slice_bound_def Let_def)
  moreover have "py_slice (- int (n div 4)) (- 1) ys \<noteq> []"
    using q assms by (auto simp: py_slice_def slice_bound_def Let_def)
  ultimately have "baseline n ys \<noteq> None"
    by (simp add: baseline_def np_mean_def Let_def)
  then show ?thesis by (cases "baseline n ys") simp_all
qed

lemma np_select_map:
  assumes "length xs = length ys"
  shows "np_select xs (map P ys) = Inr (map fst (filter (\<lambda>p. P (snd p)) (zip xs ys)))"
proof -
  have "filter snd (zip xs (map P ys)) = map (\<lambda>p. (fst p, P (snd p))) (filter (\<lambda>p. P (snd p)) (zip xs ys))"
    using assms by (induction xs ys rule: list_induct2) auto
  then show ?thesis using assms by (simp add: np_select_def comp_def)
qed

lemma samples_below_filter:
  "samples_below xs ys level = set (map fst (filter (\<lambda>p. snd p < level) (zip xs ys)))"
  by (auto simp: samples_below_def)

lemma starting_points_value:
  assumes len: "length xs = length ys" and b: "baseline (length xs) ys = Some b"
    and ne: "ys \<noteq> []" and dip: "Min (set ys) < b"
  shows "\<exists>k. k < length ys \<and> ys ! k = Min (set ys) \<and> (\<forall>j < k. ys ! j \<noteq> Min (set ys)) \<and>
    get_fit_starting_points xs ys =
      Inr (xs ! k,
           max (Max (samples_below xs ys ((b - Min (set ys)) / 2 + Min (set ys))) -
                Min (samples_below xs ys ((b - Min (set ys)) / 2 + Min (set ys)))) 1,
           (b - Min (set ys)) *
           max (Max (samples_below xs ys ((b - Min (set ys)) / 2 + Min (set ys))) -
                Min (samples_below xs ys ((b - Min (set ys)) / 2 + Min (set ys)))) 1 *
           pi / 2)"
proof -
  let ?m = "Min (set ys)"
  let ?P = "\<lambda>y. y < (b - ?m) / 2 + ?m"
  let ?sel = "map fst (filter (\<lambda>p. ?P (snd p)) (zip xs ys))"
  let ?S = "samples_below xs ys ((b - ?m) / 2 + ?m)"
  from np_argmin_first [OF ne] obtain k where k: "np_argmin ys = Inr k" "k < length ys"
    "ys ! k = ?m" "\<forall>j < k. ys ! j \<noteq> ?m" by blast
  have item: "np_item xs k = Inr (xs ! k)" using k(2) len by (simp add: np_item_def)
  have sel: "np_select xs (map ?P ys) = Inr ?sel" by (rule np_select_map [OF len])
  have set_sel: "set ?sel = ?S" by (simp add: samples_below_filter)
  have "(xs ! k, ys ! k) \<in> set (zip xs ys)"
    using k(2) len by (metis in_set_zip fst_conv snd_conv)
  moreover have "?P (ys ! k)" using dip k(3) by simp
  ultimately have "xs ! k \<in> ?S" unfolding samples_below_def by force
  then have "set ?sel \<noteq> {}" unfolding set_sel by blast
  then have nonempty: "?sel \<noteq> []" by (metis set_empty)
  have mx: "np_max ?sel = Inr (Max ?S)" and mn: "np_min ?sel = Inr (Min ?S)"
    using np_max_Max [OF nonempty] np_min_Min [OF nonempty] set_sel by simp_all
  have "get_fit_starting_points xs ys =
      Inr (xs ! k, max (Max ?S - Min ?S) 1, (b - ?m) * max (Max ?S - Min ?S) 1 * pi / 2)"
    unfolding get_fit_starting_points_def
    by (simp add: k(1) item np_min_Min [OF ne] b sel mx mn bind_err_def Let_def)
  with k show ?thesis by blast
qed

lemma starting_points_flat:
  assumes len: "length xs = length ys" and b: "baseline (length xs) ys = Some b"
    and ne: "ys \<noteq> []" and flat: "\<not> Min (set ys) < b"
  shows "get_fit_starting_points xs ys = Inl ValueError"
proof -
  let ?m = "Min (set ys)"
  let ?P = "\<lambda>y. y < (b - ?m) / 2 + ?m"
  from np_argmin_first [OF ne] obtain k where k: "np_argmin ys = Inr k" "k < length ys"
    by blast
  have item: "np_item xs k = Inr (xs ! k)" using k(2) len by (simp add: np_item_def)
  have "\<not> ?P y" if "y \<in> set ys" for y
  proof -
    have "?m \<le> y" using that by simp
    moreover have "(b - ?m) / 2 \<le> 0" using flat by simp
    ultimately show ?thesis by linarith
  qed
  then have "filter (\<lambda>p. ?P (snd p)) (zip xs ys) = []"
    by (auto simp: filter_empty_conv dest: set_zip_rightD)
  then have sel: "np_select xs (map ?P ys) = Inr []"
    using np_select_map [OF len, of ?P] by simp
  show ?thesis
    unfolding get_fit_starting_points_def
    by (simp add: k(1) item np_min_Min [OF ne] b sel np_max_def bind_err_def Let_def)
qed

text \<open>
  Claim C5, amended. For a curve of at least eight samples (as many x-values as
  y-values) the baseline \<open>b\<close> of the code is defined. If it lies above the global
  minimum \<open>m\<close> of y, the heuristic returns: the x-value at the first position of the
  global minimum; as width the span of the x-values of the samples with
  \<open>y < (b - m) / 2 + m\<close>, raised to 1 if smaller; and as area \<open>(b - m) * width * pi / 2\<close>.
  Otherwise (a flat curve) it raises ValueError.
\<close>

theorem starting_points_estimate:
  assumes "length xs = length ys" and "8 \<le> length ys"
  shows "\<exists>b. baseline (length xs) ys = Some b \<and>
    (if Min (set ys) < b
     then \<exists>k fw. get_fit_starting_points xs ys =
              Inr (xs ! k, fw, (b - Min (set ys)) * fw * pi / 2) \<and>
            k < length ys \<and> ys ! k = Min (set ys) \<and> (\<forall>j < k. ys ! j \<noteq> Min (set ys)) \<and>
            fw = max (Max (samples_below xs ys ((b - Min (set ys)) / 2 + Min (set ys))) -
                      Min (samples_below xs ys ((b - Min (set ys)) / 2 + Min (set ys)))) 1 \<and>
            1 \<le> fw
     else get_fit_starting_points xs ys = Inl ValueError)"
proof -
  from assms have ne: "ys \<noteq> []" by auto
  from assms have "8 \<le> length xs" by simp
  from baseline_defined [OF this assms(1) [symmetric]]
  obtain b where b: "baseline (length xs) ys = Some b" ..
  define fw where "fw = max (Max (samples_below xs ys ((b - Min (set ys)) / 2 + Min (set ys))) -
      Min (samples_below xs ys ((b - Min (set ys)) / 2 + Min (set ys)))) 1"
  have fw1: "1 \<le> fw" by (simp add: fw_def)
  have "if Min (set ys) < b
     then \<exists>k fw. get_fit_starting_points xs ys =
              Inr (xs ! k, fw, (b - Min (set ys)) * fw * pi / 2) \<and>
            k < length ys \<and> ys ! k = Min (set ys) \<and> (\<forall>j < k. ys ! j \<noteq> Min (set ys)) \<and>
            fw = max (Max (samples_below xs ys ((b - Min (set ys)) / 2 + Min (set ys))) -
                      Min (samples_below xs ys ((b - Min (set ys)) / 2 + Min (set ys)))) 1 \<and>
            1 \<le> fw
     else get_fit_starting_points xs ys = Inl ValueError"
  proof (cases "Min (set ys) < b")
    case True
    from starting_points_value [OF assms(1) b ne True, folded fw_def] obtain k where
      k: "k < length ys" "ys ! k = Min (set ys)" "\<forall>j < k. ys ! j \<noteq> Min (set ys)"
      and run: "get_fit_starting_points xs ys =
        Inr (xs ! k, fw, (b - Min (set ys)) * fw * pi / 2)"
      by (elim exE conjE)
    show ?thesis
      unfolding if_P [OF True]
      apply (rule exI [of _ k])
      apply (rule exI [of _ fw])
      apply (intro conjI)
           apply (rule run)
          apply (rule k(1))
         apply (rule k(2))
        apply (rule k(3))
       apply (rule fw_def)
      apply (rule fw1)
      done
  next
    case False
    from starting_points_flat [OF assms(1) b ne False] show ?thesis
      using False by simp
  qed
  with b show ?thesis by (intro exI conjI)
qed

theorem starting_points_estimate_witness:
  "baseline 8 [4, 4, 4, 4, 4, 0, 4, 4] = Some 4 \<and>
   Min (set [4, 4, 4, 4, 4, 0, 4, 4 :: real]) = 0 \<and>
   samples_below [0, 1, 2, 3, 4, 5, 6, 7] [4, 4, 4, 4, 4, 0, 4, 4] 2 = {5} \<and>
   get_fit_starting_points [0, 1, 2, 3, 4, 5, 6, 7] [4, 4, 4, 4, 4, 0, 4, 4] =
     Inr (5, 1, 2 * pi)"
proof -
  have p1: "length [0, 1, 2, 3, 4, 5, 6, 7 :: real] = length [4, 4, 4, 4, 4, 0, 4, 4 :: real]"
    and p2: "8 \<le> length [4, 4, 4, 4, 4, 0, 4, 4 :: real]" by simp_all
  note inst = starting_points_estimate [OF p1 p2]
  have b: "baseline 8 [4, 4, 4, 4, 4, 0, 4, 4] = Some 4"
    by (simp add: baseline_def np_mean_def py_slice_def slice_bound_def)
  have m: "Min (set [4, 4, 4, 4, 4, 0, 4, 4 :: real]) = 0"
    by simp
  have s: "samples_below [0, 1, 2, 3, 4, 5, 6, 7] [4, 4, 4, 4, 4, 0, 4, 4] 2 = {5}"
    by (simp add: samples_below_filter)
  have len: "length [0, 1, 2, 3, 4, 5, 6, 7 :: real] = 8" by simp
  from inst obtain k fw where
    run: "get_fit_starting_points [0, 1, 2, 3, 4, 5, 6, 7] [4, 4, 4, 4, 4, 0, 4, 4] =
       Inr ([0, 1, 2, 3, 4, 5, 6, 7] ! k, fw, 4 * fw * pi / 2)"
    and k: "k < 8" "[4, 4, 4, 4, 4, 0, 4, 4 :: real] ! k = 0"
    and fw: "fw = max (Max {5} - Min {5}) 1"
    unfolding len b m by (auto simp: s)
  have "k = 5"
  proof (rule ccontr)
    assume "k \<noteq> 5"
    with k(1) have "k \<in> {0, 1, 2, 3, 4, 6, 7}" by auto
    with k(2) show False by auto
  qed
  with run fw have "get_fit_starting_points [0, 1, 2, 3, 4, 5, 6, 7] [4, 4, 4, 4, 4, 0, 4, 4] =
     Inr (5, 1, 2 * pi)" by simp
  with b m s show ?thesis by blast
qed

text \<open>
  Claim C5 as stated fails: a single sample, and a flat curve of eight samples, are
  non-empty inputs on which the heuristic raises instead of returning estimates.
\<close>

theorem starting_points_raise:
  "get_fit_starting_points [0] [1] = Inl ValueError \<and>
   get_fit_starting_points [0, 1, 2, 3, 4, 5, 6, 7] [4, 4, 4, 4, 4, 4, 4, 4] = Inl ValueError"
  by (simp add: get_fit_starting_points_def bind_err_def np_argmin_def np_min_def
      np_max_def np_item_def np_select_def np_mean_def py_slice_def slice_bound_def
      baseline_def)

section \<open>The Q-value and its standard error\<close>

text \<open>
  Claim C1. Let the fit of a curve succeed with result \<open>fr\<close>, and let the zoom factor
  \<open>z\<close> be at least 1. Then \<^verbatim>\<open>fit_qvalue\<close> returns
  \<open>round(f0 / (w * 1e-3 / (2 * z)), 1)\<close> together with \<open>fr\<close>, for the fitted width
  \<open>w\<close>; and \<^verbatim>\<open>get_qvalue_stderr\<close> returns
  \<open>round(f0 / (w * 1e-3 / 2)\<^sup>2 * (s * 1e-3 / 2), 1)\<close> for the width error \<open>s\<close>, with no
  zoom factor in it. For \<open>w = 0\<close> either quotient is a division by zero, which
  Python raises.
\<close>

theorem qvalue_formulas:
  assumes "1 \<le> z"
    and "get_fit_starting_points xs ys = Inr (pc, fw, ar)"
    and "guess E (background xs pc fw ys) (background xs pc fw xs) = Some cs"
    and "fit E ys \<lparr>coeffs = cs, init_x0 = pc, init_w = fw, init_a = ar\<rparr> xs = Some fr"
    and "stderr_w fr = Some s"
  shows "fit_qvalue E f0 xs ys z =
      (if best_w fr = 0 then Inl ZeroDivisionError
       else Inr (py_round1 (f0 / (best_w fr * (1 / 1000) / (2 * real_of_int z))), fr)) \<and>
    get_qvalue_stderr f0 fr =
      (if best_w fr = 0 then Inl ZeroDivisionError
       else Inr (py_round1 (f0 / (best_w fr * (1 / 1000) / 2)\<^sup>2 * (s * (1 / 1000) / 2))))"
proof
  from assms(1) have z: "real_of_int z \<noteq> 0" by simp
  show "fit_qvalue E f0 xs ys z =
      (if best_w fr = 0 then Inl ZeroDivisionError
       else Inr (py_round1 (f0 / (best_w fr * (1 / 1000) / (2 * real_of_int z))), fr))"
    unfolding fit_qvalue_def
    using z by (simp add: assms(2-4) bind_err_def lib_def py_truediv_def)
  show "get_qvalue_stderr f0 fr =
      (if best_w fr = 0 then Inl ZeroDivisionError
       else Inr (py_round1 (f0 / (best_w fr * (1 / 1000) / 2)\<^sup>2 * (s * (1 / 1000) / 2))))"
    unfolding get_qvalue_stderr_def
    by (simp add: assms(5) bind_err_def py_truediv_def)
qed

lemma example_start:
  "get_fit_starting_points [0, 1, 2, 3, 4, 5, 6, 7] [4, 4, 4, 4, 4, 0, 4, 4] =
     Inr (5, 1, 2 * pi)"
  by (simp add: get_fit_starting_points_def bind_err_def np_argmin_def np_min_def
      np_max_def np_item_def np_select_def np_mean_def py_slice_def slice_bound_def
      baseline_def)

theorem qvalue_formulas_witness:
  "fit_qvalue example_externals (1877 / 200) [0, 1, 2, 3, 4, 5, 6, 7]
      [4, 4, 4, 4, 4, 0, 4, 4] 2 =
     Inr (37540, \<lparr>best_x0 = 5, best_w = 1, best_a = 2 * pi, stderr_w = Some (1 / 10)\<rparr>) \<and>
   get_qvalue_stderr (1877 / 200)
      \<lparr>best_x0 = 5, best_w = 1, best_a = 2 * pi, stderr_w = Some (1 / 10)\<rparr> = Inr 1877"
proof -
  let ?fr = "\<lparr>best_x0 = 5, best_w = 1, best_a = 2 * pi, stderr_w = Some (1 / 10)\<rparr>"
  have g: "guess example_externals
      (background [0, 1, 2, 3, 4, 5, 6, 7] 5 1 [4, 4, 4, 4, 4, 0, 4, 4])
      (background [0, 1, 2, 3, 4, 5, 6, 7] 5 1 [0, 1, 2, 3, 4, 5, 6, 7]) =
      Some (replicate 8 0)"
    by (simp add: example_externals_def)
  have f: "fit example_externals [4, 4, 4, 4, 4, 0, 4, 4]
      \<lparr>coeffs = replicate 8 0, init_x0 = 5, init_w = 1, init_a = 2 * pi\<rparr>
      [0, 1, 2, 3, 4, 5, 6, 7] = Some ?fr"
    by (simp add: example_externals_def)
  have s: "stderr_w ?fr = Some (1 / 10)" by simp
  have z: "(1::int) \<le> 2" by simp
  from qvalue_formulas [OF z example_start g f s, of "1877 / 200"] show ?thesis
    by (simp add: py_round1_def round_half_even_def power2_eq_square)
qed

section \<open>Properties of the combination\<close>

lemma bind_err_Inr_iff: "bind_err m f = Inr r \<longleftrightarrow> (\<exists>v. m = Inr v \<and> f v = Inr r)"
  by (cases m) (simp_all add: bind_err_def)

lemma fit_qvalue_zoom:
  assumes "fit_qvalue E f0 xs ys z = Inr r"
  shows "z \<noteq> 0"
proof
  assume "z = 0"
  then have "py_truediv w (of_int (2 * z)) = Inl ZeroDivisionError" for w
    by (simp add: py_truediv_def)
  with assms show False
    by (auto simp: fit_qvalue_def bind_err_Inr_iff)
qed

lemma rescale_axes_ok:
  assumes "\<forall>(zf, c) \<in> set data. \<exists>r. fit_qvalue E f0 (np_arange n) c zf = Inr r"
  shows "\<exists>axes. rescale_axes E f0 n data = Inr axes \<and> length axes = length data \<and>
    (\<forall>a \<in> set axes. length a = nat n)"
  using assms
proof (induction data)
  case Nil
  then show ?case by simp
next
  case (Cons p data)
  obtain zf c where p: "p = (zf, c)" by (cases p)
  from Cons.prems p obtain q fr where fitted: "fit_qvalue E f0 (np_arange n) c zf = Inr (q, fr)"
    by auto
  from fit_qvalue_zoom [OF fitted] have zf: "zf \<noteq> 0" .
  from Cons.prems have "\<forall>(zf, c) \<in> set data. \<exists>r. fit_qvalue E f0 (np_arange n) c zf = Inr r"
    by simp
  from Cons.IH [OF this] obtain axes where axes: "rescale_axes E f0 n data = Inr axes"
    "length axes = length data" "\<forall>a \<in> set axes. length a = nat n" by blast
  let ?axis = "map (\<lambda>i. (real i - best_x0 fr) / (2000 * real_of_int zf)) [0..<nat n]"
  have "rescale_axes E f0 n (p # data) = Inr (?axis # axes)"
    by (simp add: p fitted points_to_mhz_value [OF zf] axes(1) bind_err_def)
  with axes show ?case by simp
qed

lemma np_take_perm:
  assumes "mset idx = mset [0..<length xs]"
  shows "np_take xs idx = Inr (map (\<lambda>i. xs ! i) idx)"
proof -
  have "set idx = {0..<length xs}" using assms by (metis mset_eq_setD set_upt)
  then show ?thesis by (simp add: np_take_def)
qed

lemma zip_permuted:
  assumes "mset idx = mset [0..<length xs]" and "length ys = length xs"
  shows "mset (zip (map (\<lambda>i. xs ! i) idx) (map (\<lambda>i. ys ! i) idx)) = mset (zip xs ys)"
proof -
  have "zip (map (\<lambda>i. xs ! i) idx) (map (\<lambda>i. ys ! i) idx) = map (\<lambda>i. (xs ! i, ys ! i)) idx"
    by (induction idx) simp_all
  moreover have "mset (map (\<lambda>i. (xs ! i, ys ! i)) idx) =
      mset (map (\<lambda>i. (xs ! i, ys ! i)) [0..<length xs])"
    using assms(1) by (metis mset_map)
  moreover have "map (\<lambda>i. (xs ! i, ys ! i)) [0..<length xs] = zip xs ys"
    using assms(2) by (intro nth_equalityI) simp_all
  ultimately show ?thesis by simp
qed

lemma length_concat_uniform:
  assumes "\<forall>a \<in> set xss. length a = n"
  shows "length (concat xss) = length xss * n"
  using assms by (induction xss) simp_all

lemma sum_lengths_uniform:
  assumes "\<forall>(zf, c) \<in> set data. length c = n"
  shows "sum_list (map (\<lambda>p. length (snd p)) data) = length data * n"
  using assms by (induction data) auto

lemma combine_data_nonempty:
  "combine_data E f0 ((zf0, c0) # rest) =
     bind_err (rescale_axes E f0 (int (length c0)) ((zf0, c0) # rest)) (\<lambda>x_axis_mhz.
     bind_err (np_take (concat x_axis_mhz) (argsort E (concat x_axis_mhz))) (\<lambda>x_sorted.
     bind_err (np_take (concat (map snd ((zf0, c0) # rest))) (argsort E (concat x_axis_mhz)))
       (\<lambda>y_sorted. Inr (x_sorted, map (\<lambda>f. 2 / (1 / 1000) * f) x_sorted, y_sorted))))"
  by (simp add: combine_data_def Let_def del: rescale_axes.simps)

text \<open>
  Claim C2, amended. Let the data set have at least one zoom factor, all curves of one
  length, and let the fit of every curve return. Then \<^verbatim>\<open>combine_data\<close> returns a
  frequency axis, a point axis and an absorption sequence whose common length is the
  sum of the lengths of the curves; the frequencies ascend; the pairs of frequency and
  absorption are those of the concatenated rescaled axes and curves, rearranged; and
  every point-axis element is 2000 times its frequency.
\<close>

theorem combine_data_sorted:
  assumes "sorting_permutation (argsort E)"
    and "data = (zf0, c0) # rest"
    and "\<forall>(zf, c) \<in> set data. length c = length c0"
    and "\<forall>(zf, c) \<in> set data. \<exists>r. fit_qvalue E f0 (np_arange (int (length c0))) c zf = Inr r"
  shows "\<exists>fs ps abs axes. combine_data E f0 data = Inr (fs, ps, abs) \<and>
    length fs = sum_list (map (\<lambda>p. length (snd p)) data) \<and>
    length ps = length fs \<and> length abs = length fs \<and>
    sorted fs \<and>
    ps = map (\<lambda>f. 2000 * f) fs \<and>
    rescale_axes E f0 (int (length c0)) data = Inr axes \<and>
    mset (zip fs abs) = mset (zip (concat axes) (concat (map snd data)))"
proof -
  let ?n = "length c0"
  from rescale_axes_ok [OF assms(4)] obtain axes where
    axes: "rescale_axes E f0 (int ?n) data = Inr axes" "length axes = length data"
      "\<forall>a \<in> set axes. length a = ?n" by auto
  let ?x = "concat axes"
  let ?y = "concat (map snd data)"
  let ?idx = "argsort E ?x"
  have lx: "length ?x = length data * ?n"
    using length_concat_uniform [OF axes(3)] axes(2) by simp
  have total: "sum_list (map (\<lambda>p. length (snd p)) data) = length data * ?n"
    by (rule sum_lengths_uniform [OF assms(3)])
  have ly: "length ?y = length ?x"
    using total lx by (simp add: length_concat comp_def)
  from assms(1) have perm: "mset ?idx = mset [0..<length ?x]"
    and asc: "sorted (map (\<lambda>i. ?x ! i) ?idx)"
    by (simp_all add: sorting_permutation_def)
  have permy: "mset ?idx = mset [0..<length ?y]" using perm ly by simp
  let ?fs = "map (\<lambda>i. ?x ! i) ?idx"
  let ?abs = "map (\<lambda>i. ?y ! i) ?idx"
  have lidx: "length ?idx = length ?x"
    using perm by (metis length_upt minus_nat.diff_0 size_mset)
  have run: "combine_data E f0 data = Inr (?fs, map (\<lambda>f. 2 / (1 / 1000) * f) ?fs, ?abs)"
    unfolding combine_data_nonempty [of E f0 zf0 c0 rest, folded assms(2)]
    by (simp add: axes(1) np_take_perm [OF perm] np_take_perm [OF permy] bind_err_def)
  have pts: "map (\<lambda>f. 2 / (1 / 1000) * f) ?fs = map (\<lambda>f. 2000 * f) ?fs" by simp
  have pairs: "mset (zip ?fs ?abs) = mset (zip ?x ?y)"
    by (rule zip_permuted [OF perm ly])
  show ?thesis
    apply (rule exI [of _ ?fs])
    apply (rule exI [of _ "map (\<lambda>f. 2000 * f) ?fs"])
    apply (rule exI [of _ ?abs])
    apply (rule exI [of _ axes])
    apply (intro conjI)
           apply (simp only: run pts)
          apply (simp add: lidx lx total)
         apply simp
        apply simp
       apply (rule asc)
      apply (rule refl)
     apply (rule axes(1))
    apply (rule pairs)
    done
qed

lemma stable_argsort_sorting: "sorting_permutation stable_argsort"
  unfolding sorting_permutation_def
proof (intro allI conjI)
  fix xs :: "real list"
  let ?zs = "zip xs [0..<length xs]"
  show "mset (stable_argsort xs) = mset [0..<length xs]"
  proof -
    have "mset (map snd (sort_key fst ?zs)) = mset (map snd ?zs)"
      by (metis mset_map mset_sort)
    then show ?thesis by (simp add: stable_argsort_def)
  qed
  have eq: "map (\<lambda>p. xs ! snd p) (sort_key fst ?zs) = map fst (sort_key fst ?zs)"
  proof -
    have "xs ! snd p = fst p" if "p \<in> set (sort_key fst ?zs)" for p
    proof -
      from that have "p \<in> set ?zs" by simp
      then show ?thesis by (auto simp: set_zip)
    qed
    then show ?thesis by simp
  qed
  have srt: "sorted (map fst (sort_key fst ?zs))" by (rule sorted_sort_key)
  show "sorted (map (\<lambda>i. xs ! i) (stable_argsort xs))"
    unfolding stable_argsort_def map_map comp_def eq by (rule srt)
qed
lemma np_arange_8: "np_arange 8 = [0, 1, 2, 3, 4, 5, 6, 7]"
  by (simp add: np_arange_def eval_nat_numeral)

lemma example_fit_qvalue:
  "fit_qvalue example_externals f0 [0, 1, 2, 3, 4, 5, 6, 7] [4, 4, 4, 4, 4, 0, 4, 4] zf =
     (if zf = 0 then Inl ZeroDivisionError
      else Inr (py_round1 (f0 / (1 / 1000 / (2 * real_of_int zf))),
        \<lparr>best_x0 = 5, best_w = 1, best_a = 2 * pi, stderr_w = Some (1 / 10)\<rparr>))"
  by (simp add: fit_qvalue_def example_start example_externals_def bind_err_def lib_def
      py_truediv_def)

lemma example_rescale:
  "rescale_axes example_externals f0 8
      [(1, [4, 4, 4, 4, 4, 0, 4, 4]), (2, [4, 4, 4, 4, 4, 0, 4, 4])] =
    Inr [[- (1 / 400), - (1 / 500), - (3 / 2000), - (1 / 1000), - (1 / 2000), 0, 1 / 2000, 1 / 1000],
         [- (1 / 800), - (1 / 1000), - (3 / 4000), - (1 / 2000), - (1 / 4000), 0, 1 / 4000, 1 / 2000]]"
  by (simp add: np_arange_8 example_fit_qvalue bind_err_def points_to_mhz_def py_truediv_def)

lemma example_argsort:
  "stable_argsort [- (1 / 400), - (1 / 500), - (3 / 2000), - (1 / 1000), - (1 / 2000), 0,
         1 / 2000, 1 / 1000, - (1 / 800), - (1 / 1000), - (3 / 4000), - (1 / 2000),
         - (1 / 4000), 0, 1 / 4000, 1 / 2000] =
   [0, 1, 2, 8, 3, 9, 10, 4, 11, 12, 5, 13, 14, 6, 15, 7]"
  by (simp add: stable_argsort_def upt_rec_numeral)

theorem combine_data_sorted_witness:
  "combine_data example_externals (1877 / 200)
      [(1, [4, 4, 4, 4, 4, 0, 4, 4]), (2, [4, 4, 4, 4, 4, 0, 4, 4])] =
    Inr ([- 1 / 400, - 1 / 500, - 3 / 2000, - 1 / 800, - 1 / 1000, - 1 / 1000, - 3 / 4000,
          - 1 / 2000, - 1 / 2000, - 1 / 4000, 0, 0, 1 / 4000, 1 / 2000, 1 / 2000, 1 / 1000],
         [- 5, - 4, - 3, - 5 / 2, - 2, - 2, - 3 / 2, - 1, - 1, - 1 / 2, 0, 0, 1 / 2, 1, 1, 2],
         [4, 4, 4, 4, 4, 4, 4, 4, 4, 4, 0, 0, 4, 4, 4, 4]) \<and>
   sorted [- 1 / 400, - 1 / 500, - 3 / 2000, - 1 / 800, - 1 / 1000, - 1 / 1000, - 3 / 4000,
          - 1 / 2000, - 1 / 2000, - 1 / 4000, 0, 0, 1 / 4000, 1 / 2000, 1 / 2000, 1 / 1000 :: real]"
proof -
  let ?ys = "[4, 4, 4, 4, 4, 0, 4, 4 :: real]"
  let ?data = "[(1 :: int, ?ys), (2, ?ys)]"
  let ?fs = "[- 1 / 400, - 1 / 500, - 3 / 2000, - 1 / 800, - 1 / 1000, - 1 / 1000, - 3 / 4000,
          - 1 / 2000, - 1 / 2000, - 1 / 4000, 0, 0, 1 / 4000, 1 / 2000, 1 / 2000, 1 / 1000 :: real]"
  have run: "combine_data example_externals (1877 / 200) ?data =
    Inr (?fs,
         [- 5, - 4, - 3, - 5 / 2, - 2, - 2, - 3 / 2, - 1, - 1, - 1 / 2, 0, 0, 1 / 2, 1, 1, 2],
         [4, 4, 4, 4, 4, 4, 4, 4, 4, 4, 0, 0, 4, 4, 4, 4])"
    unfolding combine_data_nonempty
    by (simp add: example_rescale bind_err_def example_argsort np_take_def
        example_externals_def [THEN arg_cong, of argsort] del: rescale_axes.simps)
  have p1: "sorting_permutation (argsort example_externals)"
    by (simp add: example_externals_def stable_argsort_sorting)
  have p2: "?data = (1, ?ys) # [(2, ?ys)]" by simp
  have p3: "\<forall>(zf, c) \<in> set ?data. length c = length ?ys" by simp
  have p4: "\<forall>(zf, c) \<in> set ?data.
      \<exists>r. fit_qvalue example_externals (1877 / 200) (np_arange (int (length ?ys))) c zf = Inr r"
    by (simp add: np_arange_8 example_fit_qvalue)
  from combine_data_sorted [OF p1 p2 p3 p4] obtain fs ps abs where
    res: "combine_data example_externals (1877 / 200) ?data = Inr (fs, ps, abs)"
    and asc: "sorted fs" by blast
  from res run have "fs = ?fs" by simp
  with asc run show ?thesis by simp
qed

text \<open>
  Claim C2 as stated fails: the data set with the single flat curve of eight samples
  has one zoom factor and one curve length, and \<^verbatim>\<open>combine_data\<close> raises on it.
\<close>

theorem combine_data_raises:
  "combine_data example_externals (1877 / 200) [(1, [4, 4, 4, 4, 4, 4, 4, 4])] =
     Inl ValueError"
proof -
  have "get_fit_starting_points [0, 1, 2, 3, 4, 5, 6, 7] [4, 4, 4, 4, 4, 4, 4, 4] =
      Inl ValueError"
    by (simp add: get_fit_starting_points_def bind_err_def np_argmin_def np_min_def
        np_max_def np_item_def np_select_def np_mean_def py_slice_def slice_bound_def
        baseline_def)
  then show ?thesis
    by (simp add: combine_data_def np_arange_8 fit_qvalue_def bind_err_def)
qed

section \<open>Curves of different lengths\<close>

lemma starting_points_errors:
  assumes "get_fit_starting_points xs ys = Inl e"
  shows "e = ValueError \<or> e = IndexError"
  using assms
  by (auto simp: get_fit_starting_points_def bind_err_def np_argmin_def np_item_def
      np_select_def np_min_def np_max_def Let_def
      split: sum.splits option.splits if_splits list.splits)

lemma starting_points_mismatch:
  assumes "length ys \<noteq> length xs"
  shows "\<exists>e. get_fit_starting_points xs ys = Inl e"
proof (cases "get_fit_starting_points xs ys")
  case (Inl e)
  then show ?thesis by blast
next
  case (Inr r)
  obtain pc fw ar where "r = (pc, fw, ar)" by (cases r)
  with Inr starting_points_facts(1) [of xs ys pc fw ar] assms show ?thesis by simp
qed

lemma fit_qvalue_errors:
  assumes "fit_qvalue E f0 xs ys z = Inl e"
  shows "e = ValueError \<or> e = IndexError \<or> e = ZeroDivisionError \<or> e = LibraryError"
proof (cases "get_fit_starting_points xs ys")
  case (Inl e')
  with assms have "e = e'" by (simp add: fit_qvalue_def bind_err_def)
  with starting_points_errors [OF Inl] show ?thesis by blast
next
  case (Inr r)
  with assms show ?thesis
    by (auto simp: fit_qvalue_def bind_err_def lib_def py_truediv_def Let_def
        split: sum.splits option.splits if_splits prod.splits)
qed

lemma fit_qvalue_mismatch:
  assumes "length ys \<noteq> length xs"
  shows "\<exists>e. fit_qvalue E f0 xs ys z = Inl e"
proof -
  from starting_points_mismatch [OF assms] obtain e where
    "get_fit_starting_points xs ys = Inl e" ..
  then show ?thesis by (simp add: fit_qvalue_def bind_err_def)
qed

lemma length_np_arange: "length (np_arange (int n)) = n"
  by (simp add: np_arange_def)

lemma points_to_mhz_errors: "points_to_mhz n zf x0 = Inl e \<Longrightarrow> e = ZeroDivisionError"
  by (auto simp: points_to_mhz_def py_truediv_def bind_err_def Let_def split: if_splits)

lemma rescale_axes_errors:
  assumes "rescale_axes E f0 n data = Inl e"
  shows "e = ValueError \<or> e = IndexError \<or> e = ZeroDivisionError \<or> e = LibraryError"
  using assms
proof (induction data arbitrary: e)
  case Nil
  then show ?case by simp
next
  case (Cons p data)
  obtain zf c where p: "p = (zf, c)" by (cases p)
  show ?case
  proof (cases "fit_qvalue E f0 (np_arange n) c zf")
    case (Inl e')
    with Cons.prems p have "e = e'" by (simp add: bind_err_def)
    with fit_qvalue_errors [OF Inl] show ?thesis by blast
  next
    case fitted: (Inr r)
    obtain q fr where r: "r = (q, fr)" by (cases r)
    show ?thesis
    proof (cases "points_to_mhz n zf (best_x0 fr)")
      case (Inl e')
      with Cons.prems p fitted r have "e = e'" by (simp add: bind_err_def)
      with points_to_mhz_errors [OF Inl] show ?thesis by blast
    next
      case axis: (Inr a)
      show ?thesis
      proof (cases "rescale_axes E f0 n data")
        case (Inl e')
        with Cons.prems p fitted r axis have "e = e'" by (simp add: bind_err_def)
        with Cons.IH [OF Inl] show ?thesis by blast
      next
        case (Inr axes)
        with Cons.prems p fitted r axis show ?thesis by (simp add: bind_err_def)
      qed
    qed
  qed
qed

lemma rescale_axes_mismatch:
  assumes "(zf, c) \<in> set data" and "length c \<noteq> n"
  shows "\<exists>e. rescale_axes E f0 (int n) data = Inl e"
  using assms(1)
proof (induction data)
  case Nil
  then show ?case by simp
next
  case (Cons p data)
  obtain zf' c' where p: "p = (zf', c')" by (cases p)
  show ?case
  proof (cases "rescale_axes E f0 (int n) (p # data)")
    case (Inl e)
    then show ?thesis by blast
  next
    case (Inr axes)
    then obtain r where fitted: "fit_qvalue E f0 (np_arange (int n)) c' zf' = Inr r"
      and tail: "\<exists>rest. rescale_axes E f0 (int n) data = Inr rest"
      by (auto simp: p bind_err_Inr_iff)
    have "p \<noteq> (zf, c)"
    proof
      assume "p = (zf, c)"
      with p have "c' = c" "zf' = zf" by simp_all
      with fit_qvalue_mismatch [of c "np_arange (int n)" E f0 zf] assms(2) fitted
      show False by (simp add: length_np_arange)
    qed
    with Cons.prems have "(zf, c) \<in> set data" by simp
    from Cons.IH [OF this] tail show ?thesis by auto
  qed
qed

text \<open>
  Claim C6, amended. When some curve of the data set differs in length from the first
  one, neither \<^verbatim>\<open>combine_data\<close> nor the constructor returns anything: both raise the
  same exception, which is a ValueError, an IndexError, a ZeroDivisionError or an
  exception of the fitting library, never a ValidationError.
\<close>

theorem mismatched_lengths_raise:
  assumes "data = (zf0, c0) # rest" and "(zf, c) \<in> set data" and "length c \<noteq> length c0"
  shows "\<exists>e. combine_data E f0 data = Inl e \<and> init E (Data data) f0 md = Inl e \<and>
    (e = ValueError \<or> e = IndexError \<or> e = ZeroDivisionError \<or> e = LibraryError) \<and>
    e \<noteq> ValidationError"
proof -
  from rescale_axes_mismatch [OF assms(2,3)] obtain e where
    e: "rescale_axes E f0 (int (length c0)) data = Inl e" ..
  have kind: "e = ValueError \<or> e = IndexError \<or> e = ZeroDivisionError \<or> e = LibraryError"
    by (rule rescale_axes_errors [OF e])
  have comb: "combine_data E f0 data = Inl e"
    unfolding combine_data_nonempty [of E f0 zf0 c0 rest, folded assms(1)]
    by (simp add: e bind_err_def)
  then have "init E (Data data) f0 md = Inl e"
    by (simp add: init_def bind_err_def)
  with comb kind show ?thesis by auto
qed

lemma example_mismatch:
  "get_fit_starting_points [0, 1, 2, 3, 4, 5, 6, 7] [4, 4, 4, 4, 4, 0, 4, 4, 4] =
     Inl IndexError"
  by (simp add: get_fit_starting_points_def bind_err_def np_argmin_def np_min_def
      np_max_def np_item_def np_select_def np_mean_def py_slice_def slice_bound_def
      baseline_def)

lemma example_mismatch_combine:
  "combine_data example_externals (1877 / 200)
      [(1, [4, 4, 4, 4, 4, 0, 4, 4]), (2, [4, 4, 4, 4, 4, 0, 4, 4, 4])] = Inl IndexError"
proof -
  have "fit_qvalue example_externals (1877 / 200) [0, 1, 2, 3, 4, 5, 6, 7]
      [4, 4, 4, 4, 4, 0, 4, 4, 4] 2 = Inl IndexError"
    by (simp add: fit_qvalue_def example_mismatch bind_err_def)
  then have "rescale_axes example_externals (1877 / 200) 8
      [(1, [4, 4, 4, 4, 4, 0, 4, 4]), (2, [4, 4, 4, 4, 4, 0, 4, 4, 4])] = Inl IndexError"
    by (simp add: np_arange_8 example_fit_qvalue points_to_mhz_def py_truediv_def
        bind_err_def)
  then show ?thesis
    unfolding combine_data_nonempty by (simp add: bind_err_def del: rescale_axes.simps)
qed

lemma example_mismatch_init:
  "init example_externals
      (Data [(1, [4, 4, 4, 4, 4, 0, 4, 4]), (2, [4, 4, 4, 4, 4, 0, 4, 4, 4])])
      (1877 / 200) None = Inl IndexError"
  by (simp add: init_def example_mismatch_combine bind_err_def)

theorem mismatched_lengths_raise_witness:
  "combine_data example_externals (1877 / 200)
      [(1, [4, 4, 4, 4, 4, 0, 4, 4]), (2, [4, 4, 4, 4, 4, 0, 4, 4, 4])] = Inl IndexError \<and>
   init example_externals
      (Data [(1, [4, 4, 4, 4, 4, 0, 4, 4]), (2, [4, 4, 4, 4, 4, 0, 4, 4, 4])])
      (1877 / 200) None = Inl IndexError"
proof -
  let ?data = "[(1 :: int, [4, 4, 4, 4, 4, 0, 4, 4 :: real]), (2, [4, 4, 4, 4, 4, 0, 4, 4, 4])]"
  have p1: "?data = (1, [4, 4, 4, 4, 4, 0, 4, 4]) # [(2, [4, 4, 4, 4, 4, 0, 4, 4, 4])]"
    by simp
  have p2: "(2, [4, 4, 4, 4, 4, 0, 4, 4, 4]) \<in> set ?data" by simp
  have p3: "length [4, 4, 4, 4, 4, 0, 4, 4, 4 :: real] \<noteq> length [4, 4, 4, 4, 4, 0, 4, 4 :: real]"
    by simp
  from mismatched_lengths_raise [OF p1 p2 p3, of example_externals "1877 / 200" None]
  obtain e where "combine_data example_externals (1877 / 200) ?data = Inl e"
    and "init example_externals (Data ?data) (1877 / 200) None = Inl e" by blast
  with example_mismatch_init show ?thesis by simp
qed

text \<open>
  Claim C6 as stated fails: for an eight-point and a nine-point curve the constructor
  raises IndexError, from the selection \<^verbatim>\<open>x_data[peak_index]\<close> of the heuristic, and
  not a ValidationError.
\<close>

theorem mismatched_lengths_index_error:
  "init example_externals
      (Data [(1, [4, 4, 4, 4, 4, 0, 4, 4]), (2, [4, 4, 4, 4, 4, 0, 4, 4, 4])])
      (1877 / 200) None = Inl IndexError \<and>
   init example_externals
      (Data [(1, [4, 4, 4, 4, 4, 0, 4, 4]), (2, [4, 4, 4, 4, 4, 0, 4, 4, 4])])
      (1877 / 200) None \<noteq> Inl ValidationError"
  by (simp add: example_mismatch_init)

section \<open>Loading a saved mode picture\<close>

lemma store_line_strings:
  assumes "\<forall>k v. m k = Some v \<longrightarrow> (\<exists>s. v = Str s)"
  shows "\<forall>k v. store_line l m k = Some v \<longrightarrow> (\<exists>s. v = Str s)"
  using assms by (auto simp: store_line_def split: option.splits if_splits)

lemma fold_store_line_strings:
  assumes "\<forall>k v. m k = Some v \<longrightarrow> (\<exists>s. v = Str s)"
  shows "\<forall>k v. fold store_line ls m k = Some v \<longrightarrow> (\<exists>s. v = Str s)"
  using assms
proof (induction ls arbitrary: m)
  case Nil
  then show ?case by simp
next
  case (Cons l ls)
  from store_line_strings [OF Cons.prems]
  have "\<forall>k v. store_line l m k = Some v \<longrightarrow> (\<exists>s. v = Str s)" .
  from Cons.IH [OF this] show ?case by simp
qed

lemma read_metadata_strings:
  assumes "read_metadata ls k = Some v"
  shows "\<exists>s. v = Str s"
proof -
  have "\<forall>k v. (Map.empty :: metadata) k = Some v \<longrightarrow> (\<exists>s. v = Str s)" by simp
  from fold_store_line_strings [OF this] assms show ?thesis
    unfolding read_metadata_def Let_def by blast
qed

lemma py_float_errors: "py_float s = Inl e \<Longrightarrow> e = ValueError"
  by (auto simp: py_float_def Let_def split: list.splits if_splits)

lemma get_qvalue_stderr_errors:
  "get_qvalue_stderr f0 fr = Inl e \<Longrightarrow> e = TypeError \<or> e = ZeroDivisionError"
  by (auto simp: get_qvalue_stderr_def py_truediv_def bind_err_def Let_def
      split: option.splits if_splits)

lemma column_errors: "column m k = Inl e \<Longrightarrow> e = IndexError"
  by (auto simp: column_def split: ndarray.splits if_splits)

text \<open>The steps of \<^verbatim>\<open>load\<close> after the table has been read.\<close>

lemma load_table:
  assumes "table f = Some m" and "column m 0 = Inr xs" and "column m 1 = Inr ys"
  shows "load E md f =
    bind_err (dict_get (read_metadata (lines f)) ''Frequency'') (\<lambda>field.
    bind_err (case field of
                Str s \<Rightarrow> py_float (freq_str s)
              | Num _ \<Rightarrow> Inl TypeError) (\<lambda>freq.
    bind_err (fit_qvalue E freq (map (\<lambda>v. 2 / (1 / 1000) * v) xs) ys 1) (\<lambda>(q, fr).
    bind_err (get_qvalue_stderr freq fr) (\<lambda>q_err.
      Inr \<lparr>metadata = read_metadata (lines f), freq0 = freq, x_data_mhz = xs,
           x_data_points = map (\<lambda>v. 2 / (1 / 1000) * v) xs,
           y_data = ys, qvalue = q, fit_result = fr,
           qvalue_stderr = q_err, mode_pic_data = None, zoom_factors = None\<rparr>))))"
  unfolding load_def using assms(2,3)
  by (simp add: assms(1) lib_def bind_err_def Let_def)

lemma load_returns:
  assumes "load E md f = Inr mp"
  shows "\<exists>s. read_metadata (lines f) ''Frequency'' = Some (Str s) \<and>
    py_float (freq_str s) = Inr (freq0 mp) \<and>
    metadata mp = read_metadata (lines f)"
proof -
  from assms obtain field freq where
    field: "dict_get (read_metadata (lines f)) ''Frequency'' = Inr field"
    and freq: "(case field of
                Str s \<Rightarrow> py_float (freq_str s)
              | Num _ \<Rightarrow> Inl TypeError) = Inr freq"
    and mp: "freq0 mp = freq" "metadata mp = read_metadata (lines f)"
    unfolding load_def Let_def
    by (auto simp: bind_err_Inr_iff)
  from field have some: "read_metadata (lines f) ''Frequency'' = Some field"
    by (simp add: dict_get_def split: option.splits)
  from read_metadata_strings [OF some] obtain s where s: "field = Str s" ..
  with freq have "py_float (freq_str s) = Inr freq" by simp
  with some s mp show ?thesis by simp
qed

lemma load_errors:
  assumes "load E md f = Inl e"
  shows "e \<noteq> ParseError \<and> e \<noteq> ValidationError"
proof -
  have lib_e: "lib r = Inl e' \<Longrightarrow> e' = LibraryError" for r :: "ndarray option" and e'
    by (auto simp: lib_def split: option.splits)
  have get_e: "dict_get m k = Inl e' \<Longrightarrow> e' = KeyError" for m k e'
    by (auto simp: dict_get_def split: option.splits)
  have field_e: "(case field of Str s \<Rightarrow> py_float (freq_str s)
      | Num _ \<Rightarrow> Inl TypeError) = Inl e' \<Longrightarrow> e' = ValueError \<or> e' = TypeError" for field e'
    by (cases field) (auto dest: py_float_errors)
  from assms show ?thesis
    unfolding load_def Let_def bind_err_def
    by (auto split: sum.splits prod.splits
        dest!: lib_e get_e field_e column_errors fit_qvalue_errors get_qvalue_stderr_errors)
qed

text \<open>
  Claim C7, amended. Let the table of the file have been read, with two columns.
  If the metadata read from the header has no \<open>Frequency\<close> entry, \<^verbatim>\<open>load\<close> raises
  KeyError. If it has one, the characters of \<open>0123456789.\<close> are kept in order and parsed
  as a decimal number: when they form none, \<^verbatim>\<open>load\<close> raises ValueError; when they
  form the number \<open>x\<close> and the fit of the loaded curve returns, \<^verbatim>\<open>load\<close> returns an
  object whose \<open>freq0\<close> is \<open>x\<close>. Whenever \<^verbatim>\<open>load\<close> returns, \<open>freq0\<close> is the number
  so parsed, and no exception of \<^verbatim>\<open>load\<close> is a ParseError.
\<close>

theorem load_frequency:
  assumes "table f = Some m" and "column m 0 = Inr xs" and "column m 1 = Inr ys"
  shows "(read_metadata (lines f) ''Frequency'' = None \<longrightarrow> load E md f = Inl KeyError) \<and>
    (\<forall>s. read_metadata (lines f) ''Frequency'' = Some (Str s) \<longrightarrow>
       (case py_float (freq_str s) of
          Inl e \<Rightarrow> load E md f = Inl ValueError
        | Inr x \<Rightarrow>
            (\<forall>q fr qe. fit_qvalue E x (map (\<lambda>v. 2000 * v) xs) ys 1 = Inr (q, fr) \<longrightarrow>
               get_qvalue_stderr x fr = Inr qe \<longrightarrow>
               (\<exists>mp. load E md f = Inr mp \<and> freq0 mp = x)))) \<and>
    (\<forall>mp. load E md f = Inr mp \<longrightarrow>
       (\<exists>s. read_metadata (lines f) ''Frequency'' = Some (Str s) \<and>
          py_float (freq_str s) = Inr (freq0 mp))) \<and>
    (\<forall>e. load E md f = Inl e \<longrightarrow> e \<noteq> ParseError)"
proof (intro conjI allI impI)
  assume "read_metadata (lines f) ''Frequency'' = None"
  then show "load E md f = Inl KeyError"
    unfolding load_table [OF assms] by (simp add: dict_get_def bind_err_def)
next
  fix s
  assume s: "read_metadata (lines f) ''Frequency'' = Some (Str s)"
  show "case py_float (freq_str s) of
          Inl e \<Rightarrow> load E md f = Inl ValueError
        | Inr x \<Rightarrow>
            (\<forall>q fr qe. fit_qvalue E x (map (\<lambda>v. 2000 * v) xs) ys 1 = Inr (q, fr) \<longrightarrow>
               get_qvalue_stderr x fr = Inr qe \<longrightarrow>
               (\<exists>mp. load E md f = Inr mp \<and> freq0 mp = x))"
  proof (cases "py_float (freq_str s)")
    case (Inl e)
    from py_float_errors [OF Inl] Inl show ?thesis
      unfolding load_table [OF assms] by (simp add: s dict_get_def bind_err_def)
  next
    case (Inr x)
    have "\<exists>mp. load E md f = Inr mp \<and> freq0 mp = x"
      if "fit_qvalue E x (map (\<lambda>v. 2000 * v) xs) ys 1 = Inr (q, fr)"
        and "get_qvalue_stderr x fr = Inr qe" for q fr qe
      unfolding load_table [OF assms] using that
      by (simp add: s Inr dict_get_def bind_err_def)
    with Inr show ?thesis by simp
  qed
next
  fix mp
  assume "load E md f = Inr mp"
  from load_returns [OF this]
  show "\<exists>s. read_metadata (lines f) ''Frequency'' = Some (Str s) \<and>
          py_float (freq_str s) = Inr (freq0 mp)"
    by blast
next
  fix e
  assume "load E md f = Inl e"
  from load_errors [OF this] show "e \<noteq> ParseError" by simp
qed

lemmas line_defs = header_line_def titles_line_def data_line_def example_data_lines_def
  startswith_hash_def py_slice_to_def slice_bound_def store_line_def match_metadata_def
  is_word_char_def is_digit_def

lemma example_columns:
  "column (Arr2 example_rows) 0 =
     Inr [0, 1 / 2000, 1 / 1000, 3 / 2000, 1 / 500, 1 / 400, 3 / 1000, 7 / 2000]"
  "column (Arr2 example_rows) 1 = Inr [4, 4, 4, 4, 4, 0, 4, 4]"
  by (simp_all add: column_def example_rows_def)

lemma example_points:
  "map (\<lambda>v. 2000 * v) [0, 1 / 2000, 1 / 1000, 3 / 2000, 1 / 500, 1 / 400, 3 / 1000, 7 / 2000] =
     [0, 1, 2, 3, 4, 5, 6, 7 :: real]"
  by simp

lemma no_frequency_metadata:
  "read_metadata (lines no_frequency_example) ''Frequency'' = None"
  by (simp add: read_metadata_def no_frequency_example_def line_defs)

lemma no_digits_metadata:
  "read_metadata (lines no_digits_example) ''Frequency'' = Some (Str ''unknown'')"
  by (simp add: read_metadata_def no_digits_example_def line_defs)

lemma saved_metadata:
  "read_metadata (lines saved_example) ''Frequency'' = Some (Str ''9.385 GHz'')"
  by (simp add: read_metadata_def saved_example_def line_defs)

lemma example_stderr:
  "get_qvalue_stderr (1877 / 200)
     \<lparr>best_x0 = 5, best_w = 1, best_a = 2 * pi, stderr_w = Some (1 / 10)\<rparr> = Inr 1877"
  by (simp add: get_qvalue_stderr_def py_truediv_def bind_err_def py_round1_def
      round_half_even_def power2_eq_square)

theorem load_frequency_witness:
  "load example_externals Map.empty no_frequency_example = Inl KeyError \<and>
   load example_externals Map.empty no_digits_example = Inl ValueError \<and>
   (\<exists>mp. load example_externals Map.empty saved_example = Inr mp \<and> freq0 mp = 1877 / 200)"
proof -
  have t1: "table no_frequency_example = Some (Arr2 example_rows)"
    and t2: "table no_digits_example = Some (Arr2 example_rows)"
    and t3: "table saved_example = Some (Arr2 example_rows)"
    by (simp_all add: no_frequency_example_def no_digits_example_def saved_example_def)
  note a = load_frequency [OF t1 example_columns, of example_externals Map.empty]
  note b = load_frequency [OF t2 example_columns, of example_externals Map.empty]
  note c = load_frequency [OF t3 example_columns, of example_externals Map.empty]
  have 1: "load example_externals Map.empty no_frequency_example = Inl KeyError"
    by (rule a [THEN conjunct1, rule_format, OF no_frequency_metadata])
  have u: "py_float (freq_str ''unknown'') = Inl ValueError"
    by (simp add: py_float_def freq_str_def is_digit_def)
  have 2: "load example_externals Map.empty no_digits_example = Inl ValueError"
    using b [THEN conjunct2, THEN conjunct1, rule_format, OF no_digits_metadata]
    unfolding u by simp
  have p: "py_float (freq_str ''9.385 GHz'') = Inr (1877 / 200)"
    by (simp add: py_float_def freq_str_def is_digit_def digits_value_def)
  have fitted: "fit_qvalue example_externals (1877 / 200)
      (map (\<lambda>v. 2000 * v) [0, 1 / 2000, 1 / 1000, 3 / 2000, 1 / 500, 1 / 400, 3 / 1000, 7 / 2000])
      [4, 4, 4, 4, 4, 0, 4, 4] 1 =
      Inr (18770, \<lparr>best_x0 = 5, best_w = 1, best_a = 2 * pi, stderr_w = Some (1 / 10)\<rparr>)"
    unfolding example_points
    by (simp add: example_fit_qvalue py_round1_def round_half_even_def)
  have "\<forall>q fr qe. fit_qvalue example_externals (1877 / 200)
        (map (\<lambda>v. 2000 * v)
           [0, 1 / 2000, 1 / 1000, 3 / 2000, 1 / 500, 1 / 400, 3 / 1000, 7 / 2000])
        [4, 4, 4, 4, 4, 0, 4, 4] 1 = Inr (q, fr) \<longrightarrow>
      get_qvalue_stderr (1877 / 200) fr = Inr qe \<longrightarrow>
      (\<exists>mp. load example_externals Map.empty saved_example = Inr mp \<and>
         freq0 mp = 1877 / 200)"
    using c [THEN conjunct2, THEN conjunct1, rule_format, OF saved_metadata]
    unfolding p by simp
  from this [rule_format, OF fitted example_stderr]
  have 3: "\<exists>mp. load example_externals Map.empty saved_example = Inr mp \<and> freq0 mp = 1877 / 200" .
  from 1 2 3 show ?thesis by (intro conjI)
qed

text \<open>
  Claim C7 as stated fails: for a header without a frequency entry \<^verbatim>\<open>load\<close> raises
  KeyError, and for a frequency entry without a digit it raises ValueError; neither
  is a ParseError.
\<close>

theorem load_not_parse_error:
  "load example_externals Map.empty no_frequency_example = Inl KeyError \<and>
   load example_externals Map.empty no_frequency_example \<noteq> Inl ParseError \<and>
   load example_externals Map.empty no_digits_example = Inl ValueError \<and>
   load example_externals Map.empty no_digits_example \<noteq> Inl ParseError"
proof -
  have t1: "table no_frequency_example = Some (Arr2 example_rows)"
    and t2: "table no_digits_example = Some (Arr2 example_rows)"
    by (simp_all add: no_frequency_example_def no_digits_example_def)
  have "load example_externals Map.empty no_frequency_example = Inl KeyError"
    unfolding load_table [OF t1 example_columns]
    by (simp add: no_frequency_metadata dict_get_def bind_err_def)
  moreover have "load example_externals Map.empty no_digits_example = Inl ValueError"
    unfolding load_table [OF t2 example_columns]
    by (simp add: no_digits_metadata dict_get_def bind_err_def py_float_def freq_str_def is_digit_def)
  ultimately show ?thesis by simp
qed

lemma match_metadata_hash: "match_metadata l = Some p \<Longrightarrow> startswith_hash l"
  by (auto simp: match_metadata_def startswith_hash_def split: list.splits if_splits)

lemma fold_store_line:
  "fold store_line ls m k =
     (case map_of (rev (List.map_filter match_metadata ls)) k of
        Some v \<Rightarrow> Some (Str v)
      | None \<Rightarrow> m k)"
proof (induction ls arbitrary: m)
  case Nil
  then show ?case by (simp add: map_filter_simps)
next
  case (Cons l ls)
  show ?case
  proof (cases "match_metadata l")
    case None
    then have "store_line l m = m" by (simp add: store_line_def)
    with None show ?thesis by (simp add: Cons.IH map_filter_simps)
  next
    case (Some p)
    obtain k' v' where p: "p = (k', v')" by (cases p)
    with Some have "store_line l m = m(k' \<mapsto> Str v')" by (simp add: store_line_def)
    with Some p show ?thesis
      by (simp add: Cons.IH map_filter_simps map_add_def split: option.splits)
  qed
qed

lemma no_hash_no_pairs:
  assumes "\<forall>l \<in> set ls. \<not> startswith_hash l"
  shows "List.map_filter match_metadata ls = []"
  using assms
proof (induction ls)
  case Nil
  then show ?case by (simp add: map_filter_simps)
next
  case (Cons l ls)
  then have "match_metadata l = None"
    using match_metadata_hash [of l] by (cases "match_metadata l") auto
  with Cons show ?case by (simp add: map_filter_simps)
qed

lemma scanned_pairs:
  "List.map_filter match_metadata
     (py_slice_to (int (length (filter startswith_hash ls)) - 1) ls) = header_pairs ls"
proof (cases "filter startswith_hash ls = []")
  case True
  then have none: "\<forall>l \<in> set ls. \<not> startswith_hash l" by (simp add: filter_empty_conv)
  then have "\<forall>l \<in> set (py_slice_to (- 1) ls). \<not> startswith_hash l"
    unfolding py_slice_to_def by (meson in_set_takeD)
  from no_hash_no_pairs [OF this] True show ?thesis
    by (simp add: header_pairs_def map_filter_simps)
next
  case False
  then have "0 < length (filter startswith_hash ls)" by simp
  then have "py_slice_to (int (length (filter startswith_hash ls)) - 1) ls =
      take (length (filter startswith_hash ls) - 1) ls"
    by (simp add: py_slice_to_def slice_bound_def nat_diff_distrib' min_def)
  then show ?thesis by (simp add: header_pairs_def)
qed

lemma read_metadata_pairs:
  "read_metadata ls k = map_option Str (map_of (rev (header_pairs ls)) k)"
  unfolding read_metadata_def Let_def fold_store_line scanned_pairs
  by (simp split: option.splits)

lemma load_ignores_old: "load E md f = load E md' f"
  by (simp add: load_def)

text \<open>
  Claim C10, amended. When the constructor returns for a path, the metadata of the
  object is what one gets by storing, in file order, the key-value pairs of the matching
  lines among the first \<open>h - 1\<close> lines of the file, \<open>h\<close> being the number of lines that
  start with \<^verbatim>\<open>#\<close>: a later pair replaces an earlier one with the same key, the last
  header line is never read, and when the keys are distinct the mapping holds exactly
  these pairs. The metadata given to the constructor has no influence on the result, and
  lines that do not match add nothing and raise nothing.
\<close>

theorem load_metadata:
  assumes "init E (Path f) fq md_arg = Inr mp"
  shows "(\<forall>k. metadata mp k = map_option Str (map_of (rev (header_pairs (lines f))) k)) \<and>
    (\<forall>other. init E (Path f) fq other = Inr mp) \<and>
    (distinct (map fst (header_pairs (lines f))) \<longrightarrow>
       {(k, s). metadata mp k = Some (Str s)} = set (header_pairs (lines f)))"
proof (intro conjI allI impI)
  from assms obtain md where loaded: "load E md f = Inr mp"
    by (auto simp: init_def Let_def)
  from load_returns [OF loaded] have md: "metadata mp = read_metadata (lines f)" by blast
  show eq: "metadata mp k = map_option Str (map_of (rev (header_pairs (lines f))) k)" for k
    by (simp add: md read_metadata_pairs)
  show "init E (Path f) fq other = Inr mp" for other
    using loaded load_ignores_old [of E md f] by (simp add: init_def Let_def)
  show "{(k, s). metadata mp k = Some (Str s)} = set (header_pairs (lines f))"
    if "distinct (map fst (header_pairs (lines f)))"
  proof -
    from that have "distinct (map fst (rev (header_pairs (lines f))))"
      by (simp add: rev_map [symmetric])
    then have "map_of (rev (header_pairs (lines f))) k = Some s \<longleftrightarrow>
        (k, s) \<in> set (header_pairs (lines f))" for k s
      by (metis map_of_eq_Some_iff set_rev)
    then show ?thesis by (auto simp: eq)
  qed
qed

lemma example_load:
  "load example_externals md saved_example =
     Inr \<lparr>metadata = read_metadata (lines saved_example), freq0 = 1877 / 200,
          x_data_mhz = [0, 1 / 2000, 1 / 1000, 3 / 2000, 1 / 500, 1 / 400, 3 / 1000, 7 / 2000],
          x_data_points = [0, 1, 2, 3, 4, 5, 6, 7],
          y_data = [4, 4, 4, 4, 4, 0, 4, 4], qvalue = 18770,
          fit_result = \<lparr>best_x0 = 5, best_w = 1, best_a = 2 * pi, stderr_w = Some (1 / 10)\<rparr>,
          qvalue_stderr = 1877, mode_pic_data = None, zoom_factors = None\<rparr>"
proof -
  have t: "table saved_example = Some (Arr2 example_rows)"
    by (simp add: saved_example_def)
  have p: "py_float (freq_str ''9.385 GHz'') = Inr (1877 / 200)"
    by (simp add: py_float_def freq_str_def is_digit_def digits_value_def)
  have fitted: "fit_qvalue example_externals (1877 / 200) [0, 1, 2, 3, 4, 5, 6, 7]
      [4, 4, 4, 4, 4, 0, 4, 4] 1 =
      Inr (18770, \<lparr>best_x0 = 5, best_w = 1, best_a = 2 * pi, stderr_w = Some (1 / 10)\<rparr>)"
    by (simp add: example_fit_qvalue py_round1_def round_half_even_def)
  show ?thesis
    unfolding load_table [OF t example_columns]
    by (simp add: saved_metadata dict_get_def bind_err_def p fitted example_stderr)
qed

lemma saved_pairs:
  "header_pairs (lines saved_example) =
     [(''Time'', ''12:00, 01/01/2020''), (''Frequency'', ''9.385 GHz''),
      (''QValue'', ''18770.0''), (''QValueErr'', ''1877.0'')]"
  by (simp add: header_pairs_def saved_example_def line_defs map_filter_simps)

theorem load_metadata_witness:
  "init example_externals (Path saved_example) 1 (Some [''Operator'' \<mapsto> Str ''N.N.'']) =
     Inr \<lparr>metadata = read_metadata (lines saved_example), freq0 = 1877 / 200,
          x_data_mhz = [0, 1 / 2000, 1 / 1000, 3 / 2000, 1 / 500, 1 / 400, 3 / 1000, 7 / 2000],
          x_data_points = [0, 1, 2, 3, 4, 5, 6, 7],
          y_data = [4, 4, 4, 4, 4, 0, 4, 4], qvalue = 18770,
          fit_result = \<lparr>best_x0 = 5, best_w = 1, best_a = 2 * pi, stderr_w = Some (1 / 10)\<rparr>,
          qvalue_stderr = 1877, mode_pic_data = None, zoom_factors = None\<rparr> \<and>
   read_metadata (lines saved_example) ''Operator'' = None \<and>
   read_metadata (lines saved_example) ''Time'' = Some (Str ''12:00, 01/01/2020'') \<and>
   read_metadata (lines saved_example) ''Frequency'' = Some (Str ''9.385 GHz'') \<and>
   read_metadata (lines saved_example) ''QValue'' = Some (Str ''18770.0'') \<and>
   read_metadata (lines saved_example) ''QValueErr'' = Some (Str ''1877.0'')"
proof -
  let ?mp = "\<lparr>metadata = read_metadata (lines saved_example), freq0 = 1877 / 200,
          x_data_mhz = [0, 1 / 2000, 1 / 1000, 3 / 2000, 1 / 500, 1 / 400, 3 / 1000, 7 / 2000],
          x_data_points = [0, 1, 2, 3, 4, 5, 6, 7],
          y_data = [4, 4, 4, 4, 4, 0, 4, 4], qvalue = 18770,
          fit_result = \<lparr>best_x0 = 5, best_w = 1, best_a = 2 * pi, stderr_w = Some (1 / 10)\<rparr>,
          qvalue_stderr = 1877, mode_pic_data = None, zoom_factors = None\<rparr>"
  have run: "init example_externals (Path saved_example) 1
      (Some [''Operator'' \<mapsto> Str ''N.N.'']) = Inr ?mp"
    by (simp add: init_def example_load)
  from load_metadata [OF run, THEN conjunct1]
  have "\<forall>k. read_metadata (lines saved_example) k =
      map_option Str (map_of (rev (header_pairs (lines saved_example))) k)"
    by simp
  then have "read_metadata (lines saved_example) ''Operator'' = None"
    and "read_metadata (lines saved_example) ''Time'' = Some (Str ''12:00, 01/01/2020'')"
    and "read_metadata (lines saved_example) ''Frequency'' = Some (Str ''9.385 GHz'')"
    and "read_metadata (lines saved_example) ''QValue'' = Some (Str ''18770.0'')"
    and "read_metadata (lines saved_example) ''QValueErr'' = Some (Str ''1877.0'')"
    by (simp_all add: saved_pairs)
  with run show ?thesis by (intro conjI)
qed

text \<open>
  Claim C10 as stated fails: in a file whose header is two frequency lines followed by
  a Q-value line, all three matching the pattern, \<^verbatim>\<open>load\<close> returns with a mapping
  that holds the second frequency only: the first is replaced, and the Q-value line,
  being the last header line, is not read.
\<close>

theorem load_skips_last_header_line:
  "init example_externals (Path untitled_example) 1 None =
     Inr \<lparr>metadata = read_metadata (lines untitled_example), freq0 = 1877 / 200,
          x_data_mhz = [0, 1 / 2000, 1 / 1000, 3 / 2000, 1 / 500, 1 / 400, 3 / 1000, 7 / 2000],
          x_data_points = [0, 1, 2, 3, 4, 5, 6, 7],
          y_data = [4, 4, 4, 4, 4, 0, 4, 4], qvalue = 18770,
          fit_result = \<lparr>best_x0 = 5, best_w = 1, best_a = 2 * pi, stderr_w = Some (1 / 10)\<rparr>,
          qvalue_stderr = 1877, mode_pic_data = None, zoom_factors = None\<rparr> \<and>
   startswith_hash (lines untitled_example ! 2) \<and>
   match_metadata (lines untitled_example ! 2) = Some (''QValue'', ''18770.0'') \<and>
   read_metadata (lines untitled_example) ''QValue'' = None \<and>
   match_metadata (lines untitled_example ! 0) = Some (''Frequency'', ''1 GHz'') \<and>
   read_metadata (lines untitled_example) ''Frequency'' = Some (Str ''9.385 GHz'')"
proof -
  have t: "table untitled_example = Some (Arr2 example_rows)"
    by (simp add: untitled_example_def)
  have p: "py_float (freq_str ''9.385 GHz'') = Inr (1877 / 200)"
    by (simp add: py_float_def freq_str_def is_digit_def digits_value_def)
  have fitted: "fit_qvalue example_externals (1877 / 200) [0, 1, 2, 3, 4, 5, 6, 7]
      [4, 4, 4, 4, 4, 0, 4, 4] 1 =
      Inr (18770, \<lparr>best_x0 = 5, best_w = 1, best_a = 2 * pi, stderr_w = Some (1 / 10)\<rparr>)"
    by (simp add: example_fit_qvalue py_round1_def round_half_even_def)
  have fr: "read_metadata (lines untitled_example) ''Frequency'' = Some (Str ''9.385 GHz'')"
    by (simp add: read_metadata_def untitled_example_def line_defs)
  have qv: "read_metadata (lines untitled_example) ''QValue'' = None"
    by (simp add: read_metadata_def untitled_example_def line_defs)
  have run: "init example_externals (Path untitled_example) 1 None =
     Inr \<lparr>metadata = read_metadata (lines untitled_example), freq0 = 1877 / 200,
          x_data_mhz = [0, 1 / 2000, 1 / 1000, 3 / 2000, 1 / 500, 1 / 400, 3 / 1000, 7 / 2000],
          x_data_points = [0, 1, 2, 3, 4, 5, 6, 7],
          y_data = [4, 4, 4, 4, 4, 0, 4, 4], qvalue = 18770,
          fit_result = \<lparr>best_x0 = 5, best_w = 1, best_a = 2 * pi, stderr_w = Some (1 / 10)\<rparr>,
          qvalue_stderr = 1877, mode_pic_data = None, zoom_factors = None\<rparr>"
    unfolding init_def Let_def init_arg.case load_table [OF t example_columns]
    by (simp add: fr dict_get_def bind_err_def p fitted example_stderr)
  have l2: "startswith_hash (lines untitled_example ! 2)"
    "match_metadata (lines untitled_example ! 2) = Some (''QValue'', ''18770.0'')"
    "match_metadata (lines untitled_example ! 0) = Some (''Frequency'', ''1 GHz'')"
    by (simp_all add: untitled_example_def line_defs)
  from run l2 qv fr show ?thesis by (intro conjI)
qed

section \<open>The last sample and the baseline\<close>

lemma py_slice_append_last:
  assumes "slice_bound j (Suc (length ys)) \<le> length ys"
  shows "py_slice i j (ys @ [a]) = py_slice i j (ys @ [b])"
proof -
  let ?lo = "slice_bound i (Suc (length ys))"
  let ?hi = "slice_bound j (Suc (length ys))"
  have key: "take (?hi - ?lo) (drop ?lo (ys @ [c])) = take (?hi - ?lo) (drop ?lo ys)" for c
  proof (cases "?lo \<le> length ys")
    case True
    with assms show ?thesis by simp
  next
    case False
    with assms show ?thesis by simp
  qed
  have len: "length (ys @ [c]) = Suc (length ys)" for c by simp
  show ?thesis
    unfolding py_slice_def Let_def len key [of a] key [of b] ..
qed

text \<open>
  The baseline of a curve does not depend on its last sample: both slices of
  \<^verbatim>\<open>_get_fit_starting_points\<close> end before it.
\<close>

theorem baseline_ignores_last_sample:
  "baseline (Suc (length ys)) (ys @ [a]) = baseline (Suc (length ys)) (ys @ [b])"
proof -
  let ?n = "Suc (length ys)"
  have "slice_bound (int (?n div 4)) ?n \<le> length ys"
    by (simp add: slice_bound_def)
  then have first: "py_slice 0 (int (?n div 4)) (ys @ [a]) = py_slice 0 (int (?n div 4)) (ys @ [b])"
    by (rule py_slice_append_last)
  have "slice_bound (- 1) ?n \<le> length ys"
    by (simp add: slice_bound_def)
  then have last: "py_slice (- int (?n div 4)) (- 1) (ys @ [a]) =
      py_slice (- int (?n div 4)) (- 1) (ys @ [b])"
    by (rule py_slice_append_last)
  show ?thesis
    unfolding baseline_def Let_def first last ..
qed

end
